theory Spec2Isabelle
  imports Main
begin

section \<open>Python dictionaries\<close>

text \<open>
  A Python \<^verbatim>\<open>dict\<close> keeps its items in insertion order. It is modelled as an
  association list whose keys are distinct. \<^verbatim>\<open>d[k] = v\<close> replaces the value of
  a key that is present, at the place where the key stands, and appends a new key at the
  end. \<^verbatim>\<open>d.update(e)\<close> stores the items of \<open>e\<close> one after the other, in
  the order of \<open>e\<close>.
\<close>

type_synonym ('k, 'v) dict = "('k \<times> 'v) list"


fun setitem :: "('k, 'v) dict \<Rightarrow> 'k \<Rightarrow> 'v \<Rightarrow> ('k, 'v) dict" where
  "setitem [] k v = [(k, v)]"
| "setitem ((k', v') # d) k v =
     (if k' = k then (k', v) # d else (k', v') # setitem d k v)"

fun dict_update :: "('k, 'v) dict \<Rightarrow> ('k, 'v) dict \<Rightarrow> ('k, 'v) dict" where
  "dict_update d [] = d"
| "dict_update d ((k, v) # e) = dict_update (setitem d k v) e"

fun dict_get :: "('k, 'v) dict \<Rightarrow> 'k \<Rightarrow> 'v \<Rightarrow> 'v" where
  "dict_get [] k dflt = dflt"
| "dict_get ((k', v') # d) k dflt = (if k' = k then v' else dict_get d k dflt)"

section \<open>Exceptions and mutable state\<close>

text \<open>
  A Python call either returns a value or raises, and in both cases it may have changed
  the objects it was given. An action takes the state and returns the outcome
  (\<open>Inl\<close> the exception raised, \<open>Inr\<close> the value returned) together with the
  state it leaves behind. \<open>bnd\<close> runs two actions one after the other; the second
  one is not run when the first one raises.
\<close>

datatype error =
    FileNotFoundError string
  | YAMLError string
  | AttributeError string
  | TypeError string
  | IndexError
  | NameError string
  | ConstraintError string "nat option"
  | ExternalError string

type_synonym ('s, 'a) action = "'s \<Rightarrow> (error + 'a) \<times> 's"

definition ret :: "'a \<Rightarrow> ('s, 'a) action" where
  "ret x s = (Inr x, s)"

definition raise :: "error \<Rightarrow> ('s, 'a) action" where
  "raise e s = (Inl e, s)"

definition bnd :: "('s, 'a) action \<Rightarrow> ('a \<Rightarrow> ('s, 'b) action) \<Rightarrow> ('s, 'b) action" where
  "bnd m f s = (case m s of (Inl e, s') \<Rightarrow> (Inl e, s') | (Inr x, s') \<Rightarrow> f x s')"

fun collect :: "('s, 'a) action list \<Rightarrow> ('s, 'a list) action" where
  "collect [] = ret []"
| "collect (m # ms) = bnd m (\<lambda>x. bnd (collect ms) (\<lambda>xs. ret (x # xs)))"

fun for_each :: "'a list \<Rightarrow> ('a \<Rightarrow> ('s, unit) action) \<Rightarrow> ('s, unit) action" where
  "for_each [] f = ret ()"
| "for_each (x # xs) f = bnd (f x) (\<lambda>_. for_each xs f)"

section \<open>Migen values\<close>

text \<open>
  The design is a structural description: signals with a width, expressions over them,
  combinatorial assignments and instances of black boxes. A \<open>Signal\<close> created in
  \<^verbatim>\<open>Top.__init__\<close> is identified by the local variable that holds it, a pad
  returned by \<^verbatim>\<open>platform.request\<close> by the resource it belongs to (name,
  number, subsignal), so that the local signal \<^verbatim>\<open>clk50\<close> and the pad of
  the resource \<^verbatim>\<open>clk50\<close> are two different signals, as they are two
  different objects in Python. \<^verbatim>\<open>ClockSignal()\<close> and
  \<^verbatim>\<open>ResetSignal()\<close> without an argument name the domain \<^verbatim>\<open>sys\<close>.
\<close>

datatype signal =
    Signal string nat
  | Pad string nat string nat
  | ClockSignal string
  | ResetSignal string

datatype expr =
    V signal
  | Constant nat
  | Inv expr
  | And expr expr
  | Cat "expr list"
  | Slice expr nat nat

text \<open>\<open>nbits s\<close> and \<open>len e\<close> are Python's \<^verbatim>\<open>len(...)\<close> of a value.\<close>

fun nbits :: "signal \<Rightarrow> nat" where
  "nbits (Signal n w) = w"
| "nbits (Pad r i f w) = w"
| "nbits (ClockSignal cd) = 1"
| "nbits (ResetSignal cd) = 1"

fun bits_for :: "nat \<Rightarrow> nat" where
  "bits_for n = (if n < 2 then 1 else Suc (bits_for (n div 2)))"

declare bits_for.simps [simp del]

fun len :: "expr \<Rightarrow> nat" where
  "len (V s) = nbits s"
| "len (Constant n) = bits_for n"
| "len (Inv e) = len e"
| "len (And a b) = max (len a) (len b)"
| "len (Cat es) = sum_list (map len es)"
| "len (Slice e lo hi) = hi - lo"

text \<open>
  A valuation gives every signal a natural number; only its low \<open>nbits\<close> bits are
  read. In a concatenation the first operand holds the least significant bits.
\<close>

type_synonym valuation = "signal \<Rightarrow> nat"

fun cat_val :: "(nat \<times> nat) list \<Rightarrow> nat" where
  "cat_val [] = 0"
| "cat_val ((w, v) # r) = v + 2 ^ w * cat_val r"

unbundle bit_operations_syntax

fun val :: "valuation \<Rightarrow> expr \<Rightarrow> nat" where
  "val \<sigma> (V s) = \<sigma> s mod 2 ^ nbits s"
| "val \<sigma> (Constant n) = n"
| "val \<sigma> (Inv e) = 2 ^ len e - 1 - val \<sigma> e"
| "val \<sigma> (And a b) = val \<sigma> a AND val \<sigma> b"
| "val \<sigma> (Cat es) = cat_val (map (\<lambda>e. (len e, val \<sigma> e)) es)"
| "val \<sigma> (Slice e lo hi) = (val \<sigma> e div 2 ^ lo) mod 2 ^ (hi - lo)"

text \<open>
  \<^verbatim>\<open>lhs.eq(rhs)\<close> is the assignment \<open>Assign lhs rhs\<close>. Added to
  \<^verbatim>\<open>self.comb\<close> it makes the target carry the value of the right-hand side,
  cut to the width of the target.
\<close>

datatype statement = Assign expr expr

fun holds :: "valuation \<Rightarrow> statement \<Rightarrow> bool" where
  "holds \<sigma> (Assign lhs rhs) = (val \<sigma> lhs = val \<sigma> rhs mod 2 ^ len lhs)"

text \<open>The bits of the signals that an assignable expression stands for, lowest first.\<close>

fun bits_of :: "expr \<Rightarrow> (signal \<times> nat) list" where
  "bits_of (V s) = map (\<lambda>i. (s, i)) [0..<nbits s]"
| "bits_of (Constant n) = []"
| "bits_of (Inv e) = []"
| "bits_of (And a b) = []"
| "bits_of (Cat es) = concat (map bits_of es)"
| "bits_of (Slice e lo hi) = take (hi - lo) (drop lo (bits_of e))"

text \<open>
  An \<^verbatim>\<open>Instance\<close> is a black box: the name of the module it instantiates and
  its items. The prefix of a keyword argument decides the kind of the item:
  \<^verbatim>\<open>i_\<close> an input port, \<^verbatim>\<open>o_\<close> an output port,
  \<^verbatim>\<open>io_\<close> a bidirectional port, \<^verbatim>\<open>p_\<close> a parameter. The
  values of the keyword arguments are evaluated from left to right, and the items are
  kept here in the order of the arguments.
\<close>

datatype item =
    Input string expr
  | Output string expr
  | InOut string expr
  | Parameter string expr

datatype inst = Inst string "item list"

fun split_key :: "string \<Rightarrow> string \<Rightarrow> (string \<times> string) option" where
  "split_key t [] = None"
| "split_key t (c # cs) = (if c = CHR ''_'' then Some (t, cs) else split_key (t @ [c]) cs)"

definition item_of :: "string \<times> expr \<Rightarrow> ('s, item) action" where
  "item_of kv =
     (case split_key [] (fst kv) of
        None \<Rightarrow> raise (TypeError (fst kv))
      | Some (t, n) \<Rightarrow>
          if t = ''i'' then ret (Input n (snd kv))
          else if t = ''o'' then ret (Output n (snd kv))
          else if t = ''io'' then ret (InOut n (snd kv))
          else if t = ''p'' then ret (Parameter n (snd kv))
          else raise (TypeError (fst kv)))"

definition Instance ::
  "string \<Rightarrow> (string \<times> ('s, expr) action) list \<Rightarrow> ('s, inst) action" where
  "Instance of_name kwargs =
     bnd (collect (map snd kwargs)) (\<lambda>vs.
     bnd (collect (map item_of (zip (map fst kwargs) vs))) (\<lambda>its.
     ret (Inst of_name its)))"

fun item_name :: "item \<Rightarrow> string" where
  "item_name (Input n e) = n"
| "item_name (Output n e) = n"
| "item_name (InOut n e) = n"
| "item_name (Parameter n e) = n"

fun item_expr :: "item \<Rightarrow> expr" where
  "item_expr (Input n e) = e"
| "item_expr (Output n e) = e"
| "item_expr (InOut n e) = e"
| "item_expr (Parameter n e) = e"

fun items :: "inst \<Rightarrow> item list" where
  "items (Inst n its) = its"

fun of_module :: "inst \<Rightarrow> string" where
  "of_module (Inst n its) = n"

text \<open>The items of an instance that carry a given port name.\<close>

definition bindings :: "inst \<Rightarrow> string \<Rightarrow> item list" where
  "bindings inst n = filter (\<lambda>it. item_name it = n) (items inst)"

text \<open>The bits an instance drives: those of its output and bidirectional ports.\<close>

fun item_drives :: "item \<Rightarrow> (signal \<times> nat) list" where
  "item_drives (Input n e) = []"
| "item_drives (Output n e) = bits_of e"
| "item_drives (InOut n e) = bits_of e"
| "item_drives (Parameter n e) = []"

section \<open>The design manifest\<close>

text \<open>
  \<^verbatim>\<open>yaml.load\<close> returns the document as Python values. Mappings are
  dictionaries; the manifests read here have strings as keys.
\<close>

datatype yaml =
    YNull
  | YBool bool
  | YInt int
  | YStr string
  | YSeq "yaml list"
  | YMap "(string \<times> yaml) list"

text \<open>
  The methods \<^verbatim>\<open>get\<close>, \<^verbatim>\<open>update\<close> and
  \<^verbatim>\<open>items\<close> exist on a dictionary only; on any other value the attribute
  lookup raises.
\<close>

definition yaml_get :: "yaml \<Rightarrow> string \<Rightarrow> yaml \<Rightarrow> ('s, yaml) action" where
  "yaml_get y k dflt =
     (case y of YMap d \<Rightarrow> ret (dict_get d k dflt) | _ \<Rightarrow> raise (AttributeError ''get''))"

definition yaml_update :: "yaml \<Rightarrow> (string, yaml) dict \<Rightarrow> ('s, yaml) action" where
  "yaml_update y e =
     (case y of YMap d \<Rightarrow> ret (YMap (dict_update d e)) | _ \<Rightarrow> raise (AttributeError ''update''))"

definition yaml_items :: "yaml \<Rightarrow> ('s, (string, yaml) dict) action" where
  "yaml_items y = (case y of YMap d \<Rightarrow> ret d | _ \<Rightarrow> raise (AttributeError ''items''))"

section \<open>The platform\<close>

text \<open>
  A resource of the platform is a name, a number and constraints: either the pins of the
  resource itself or subsignals with pins of their own, and an I/O standard.
  \<^verbatim>\<open>Pins\<close> takes strings of identifiers separated by white space.
\<close>

datatype constraint =
    Pins "string list"
  | IOStandard string
  | Subsignal string "constraint list"

datatype resource = Resource string nat "constraint list"

fun str_split :: "string \<Rightarrow> string \<Rightarrow> string list" where
  "str_split w [] = (if w = [] then [] else [w])"
| "str_split w (c # cs) =
     (if c = CHR '' '' then (if w = [] then str_split [] cs else w # str_split [] cs)
      else str_split (w @ [c]) cs)"

definition identifiers :: "string list \<Rightarrow> string list" where
  "identifiers xs = concat (map (str_split []) xs)"

fun n_bits :: "constraint list \<Rightarrow> nat option" where
  "n_bits [] = None"
| "n_bits (Pins ids # cs) = Some (length (identifiers ids))"
| "n_bits (IOStandard x # cs) = n_bits cs"
| "n_bits (Subsignal f fcs # cs) = n_bits cs"

text \<open>
  \<^verbatim>\<open>platform.request\<close> returns a signal for a resource with pins of its
  own, and a record with one signal per subsignal otherwise. Both are named after the
  resource: \<open>Wire r i w\<close> is the signal of \<open>w\<close> bits of the resource
  \<open>r\<close> with number \<open>i\<close>, and \<open>Record r i fs\<close> has a signal of
  \<open>w\<close> bits for every field \<open>(f, w)\<close> of \<open>fs\<close>.
\<close>

datatype pads = Wire string nat nat | Record string nat "(string \<times> nat) list"

fun layout :: "constraint list \<Rightarrow> error + (string \<times> nat) list" where
  "layout [] = Inr []"
| "layout (Subsignal f fcs # cs) =
     (case n_bits fcs of
        None \<Rightarrow> Inl (TypeError f)
      | Some w \<Rightarrow> (case layout cs of Inl e \<Rightarrow> Inl e | Inr fs \<Rightarrow> Inr ((f, w) # fs)))"
| "layout (Pins ids # cs) = layout cs"
| "layout (IOStandard x # cs) = layout cs"

fun new_pads :: "resource \<Rightarrow> error + pads" where
  "new_pads (Resource n i cs) =
     (case n_bits cs of
        Some w \<Rightarrow> Inr (Wire n i w)
      | None \<Rightarrow>
          (case layout cs of
             Inl e \<Rightarrow> Inl e
           | Inr fs \<Rightarrow> if fs = [] then Inl (TypeError n) else Inr (Record n i fs)))"

text \<open>
  A toolchain directive is a line of text. The line for a preprocessor define is
  \<^verbatim>\<open>set_global_assignment -name VERILOG_MACRO "{key}={value}"\<close>; it is kept
  as the key and the value that Python formats into it.
\<close>

datatype command = Command string | VERILOG_MACRO string yaml

record platform =
  available :: "resource list"
  matched :: "(resource \<times> pads) list"
  platform_commands :: "command list"

fun lookup :: "resource list \<Rightarrow> string \<Rightarrow> nat option \<Rightarrow> resource option" where
  "lookup [] name number = None"
| "lookup (Resource n i cs # rs) name number =
     (if n = name \<and> (number = None \<or> number = Some i) then Some (Resource n i cs)
      else lookup rs name number)"

definition request :: "string \<Rightarrow> nat option \<Rightarrow> (platform, pads) action" where
  "request name number p =
     (case lookup (available p) name number of
        None \<Rightarrow> (Inl (ConstraintError name number), p)
      | Some r \<Rightarrow>
          (case new_pads r of
             Inl e \<Rightarrow> (Inl e, p)
           | Inr obj \<Rightarrow>
               (Inr obj, p\<lparr>available := remove1 r (available p),
                            matched := matched p @ [(r, obj)]\<rparr>)))"

definition add_extension :: "resource list \<Rightarrow> (platform, unit) action" where
  "add_extension io p = (Inr (), p\<lparr>available := available p @ io\<rparr>)"

definition add_platform_command :: "command \<Rightarrow> (platform, unit) action" where
  "add_platform_command c p = (Inr (), p\<lparr>platform_commands := platform_commands p @ [c]\<rparr>)"

text \<open>
  Reading a subsignal of what was requested (\<^verbatim>\<open>hdmi.r\<close>), using what was
  requested as a value, and indexing a value (\<^verbatim>\<open>leds[5]\<close>).
\<close>

fun field :: "pads \<Rightarrow> string \<Rightarrow> expr option" where
  "field (Wire r i w) f = None"
| "field (Record r i fs) f =
     (case map_of fs f of None \<Rightarrow> None | Some w \<Rightarrow> Some (V (Pad r i f w)))"

definition attr :: "pads \<Rightarrow> string \<Rightarrow> ('s, expr) action" where
  "attr obj f = (case field obj f of None \<Rightarrow> raise (AttributeError f) | Some e \<Rightarrow> ret e)"

definition wrap :: "pads \<Rightarrow> ('s, expr) action" where
  "wrap obj =
     (case obj of
        Wire r i w \<Rightarrow> ret (V (Pad r i [] w))
      | Record r i fs \<Rightarrow> raise (TypeError ''Record''))"

definition getitem :: "expr \<Rightarrow> nat \<Rightarrow> ('s, expr) action" where
  "getitem e i = (if i < len e then ret (Slice e i (Suc i)) else raise IndexError)"

section \<open>The design: \<^verbatim>\<open>Top.__init__\<close>\<close>

text \<open>
  \<^verbatim>\<open>SoCCore.__init__\<close>, \<^verbatim>\<open>SPIBone\<close> and
  \<^verbatim>\<open>LiteScopeAnalyzer\<close> belong to libraries. What they build is made of
  signals of their own, which the statements of \<^verbatim>\<open>Top.__init__\<close> cannot
  name; they are kept as the calls that were made, with their arguments.
  \<^verbatim>\<open>150e6\<close> is kept as the natural number of Hertz.
\<close>

datatype pyval = PyStr string | PyInt int

datatype soc_core = SoCCore nat string "(string \<times> pyval) list"

datatype submodule =
    SPIBone pads
  | LiteScopeAnalyzer "expr list" nat nat string string

text \<open>
  The object under construction. \<open>debug\<close> is \<open>None\<close> as long as the attribute
  has not been assigned.
\<close>

record top =
  comb :: "statement list"
  specials :: "inst list"
  clock_domains :: "string list"
  debug :: "bool option"
  soc :: "soc_core option"
  submodules :: "(string \<times> submodule) list"
  wb_masters :: "string list"

definition new_top :: top where
  "new_top = \<lparr>comb = [], specials = [], clock_domains = [], debug = None, soc = None,
     submodules = [], wb_masters = []\<rparr>"

definition AW :: nat where "AW = 26"
definition DW :: nat where "DW = 64"
definition sys_clk_freq :: nat where "sys_clk_freq = 150000000"

definition leds :: expr where "leds = V (Signal ''leds'' 8)"
definition clk50 :: expr where "clk50 = V (Signal ''clk50'' 1)"

definition avalon_clock :: expr where "avalon_clock = V (Signal ''avalon_clock'' 1)"
definition avalon_address :: expr where "avalon_address = V (Signal ''avalon_address'' AW)"
definition avalon_byteenable :: expr where
  "avalon_byteenable = V (Signal ''avalon_byteenable'' (DW div 8))"
definition avalon_read :: expr where "avalon_read = V (Signal ''avalon_read'' 1)"
definition avalon_readdata :: expr where "avalon_readdata = V (Signal ''avalon_readdata'' DW)"
definition avalon_burstcount :: expr where
  "avalon_burstcount = V (Signal ''avalon_burstcount'' 8)"
definition avalon_write :: expr where "avalon_write = V (Signal ''avalon_write'' 1)"
definition avalon_writedata :: expr where
  "avalon_writedata = V (Signal ''avalon_writedata'' DW)"
definition avalon_ready :: expr where "avalon_ready = V (Signal ''avalon_ready'' 1)"
definition avalon_readdatavalid :: expr where
  "avalon_readdatavalid = V (Signal ''avalon_readdatavalid'' 1)"
definition avalon_burstbegin :: expr where
  "avalon_burstbegin = V (Signal ''avalon_burstbegin'' 1)"
definition avalon_waitrequest :: expr where
  "avalon_waitrequest = V (Signal ''avalon_waitrequest'' 1)"

definition afi_half_clk :: expr where "afi_half_clk = V (Signal ''afi_half_clk'' 1)"
definition afi_reset_export_n :: expr where
  "afi_reset_export_n = V (Signal ''afi_reset_export_n'' 1)"
definition afi_reset_n :: expr where "afi_reset_n = V (Signal ''afi_reset_n'' 1)"

text \<open>The DRAM controller, with the keyword arguments in the order of the source.\<close>

definition ddr3 :: "pads \<Rightarrow> (platform, inst) action" where
  "ddr3 ddram = Instance ''ddr3'' [
     (''i_pll_ref_clk'', ret clk50),
     (''i_global_reset_n'', ret (Inv (V (ResetSignal ''sys'')))),
     (''i_soft_reset_n'', ret (Inv (V (ResetSignal ''sys'')))),
     (''o_afi_clk'', ret avalon_clock),
     (''o_afi_half_clk'', ret afi_half_clk),
     (''o_afi_reset_n'', ret afi_reset_export_n),
     (''o_afi_reset_export_n'', ret afi_reset_n),

     (''o_mem_a'', attr ddram ''a''),
     (''o_mem_ba'', attr ddram ''ba''),
     (''io_mem_ck'', attr ddram ''clk_p''),
     (''io_mem_ck_n'', attr ddram ''clk_n''),
     (''o_mem_cke'', attr ddram ''cke''),
     (''o_mem_cs_n'', attr ddram ''cs_n''),
     (''o_mem_dm'', attr ddram ''dm''),
     (''o_mem_ras_n'', attr ddram ''ras_n''),
     (''o_mem_cas_n'', attr ddram ''cas_n''),
     (''o_mem_we_n'', attr ddram ''we_n''),
     (''o_mem_reset_n'', attr ddram ''reset_n''),
     (''io_mem_dq'', attr ddram ''dq''),
     (''io_mem_dqs'', attr ddram ''dqs_p''),
     (''io_mem_dqs_n'', attr ddram ''dqs_n''),
     (''o_mem_odt'', attr ddram ''odt''),

     (''o_avl_ready'', ret avalon_ready),
     (''i_avl_burstbegin'', ret avalon_burstbegin),
     (''i_avl_addr'', ret avalon_address),
     (''o_avl_rdata_valid'', ret avalon_readdatavalid),
     (''o_avl_rdata'', ret avalon_readdata),
     (''i_avl_wdata'', ret avalon_writedata),
     (''i_avl_be'', ret avalon_byteenable),
     (''i_avl_read_req'', ret avalon_read),
     (''i_avl_write_req'', ret avalon_write),
     (''i_avl_size'', ret avalon_burstcount),
     (''o_local_init_done'', getitem leds 5),
     (''o_local_cal_success'', getitem leds 6),
     (''o_local_cal_fail'', getitem leds 7),
     (''o_pll_locked'', getitem leds 4)]"

text \<open>
  The top-level module. The clock pad of the SDRAM and the two buttons are requested
  while the keyword arguments are evaluated.
\<close>

definition sys_top ::
  "pads \<Rightarrow> pads \<Rightarrow> pads \<Rightarrow> pads \<Rightarrow> pads \<Rightarrow> pads \<Rightarrow> pads \<Rightarrow> (platform, inst) action" where
  "sys_top hdmi_i2c hdmi_i2s hdmi sdram sdcard hps_spi hps_control = Instance ''sys_top'' [
     (''p_DW'', ret (Constant DW)),
     (''p_AW'', ret (Constant AW)),
     (''i_CLK_50'', ret clk50),

     (''o_HDMI_I2C_SCL'', attr hdmi_i2c ''scl''),
     (''io_HDMI_I2C_SDA'', attr hdmi_i2c ''sda''),

     (''o_HDMI_MCLK'', attr hdmi_i2s ''mclk''),
     (''o_HDMI_SCLK'', attr hdmi_i2s ''sclk''),
     (''o_HDMI_LRCLK'', attr hdmi_i2s ''lrclk''),
     (''o_HDMI_I2S'', attr hdmi_i2s ''i2s''),

     (''o_HDMI_TX_D'',
        bnd (attr hdmi ''r'') (\<lambda>r. bnd (attr hdmi ''g'') (\<lambda>g. bnd (attr hdmi ''b'') (\<lambda>b.
        ret (Cat [r, g, b]))))),
     (''o_HDMI_TX_CLK'', attr hdmi ''clk''),
     (''o_HDMI_TX_DE'', attr hdmi ''de''),
     (''o_HDMI_TX_HS'', attr hdmi ''hsync''),
     (''o_HDMI_TX_VS'', attr hdmi ''vsync''),
     (''i_HDMI_TX_INT'', attr hdmi ''int''),

     (''o_SDRAM_A'', attr sdram ''a''),
     (''io_SDRAM_DQ'', attr sdram ''dq''),
     (''o_SDRAM_nWE'', attr sdram ''we_n''),
     (''o_SDRAM_nCAS'', attr sdram ''cas_n''),
     (''o_SDRAM_nRAS'', attr sdram ''ras_n''),
     (''o_SDRAM_nCS'', attr sdram ''cs_n''),
     (''o_SDRAM_BA'', attr sdram ''ba''),
     (''o_SDRAM_CLK'', bnd (request ''sdram_clock'' None) wrap),

     (''o_LED_USER'', getitem leds 2),
     (''o_LED_HDD'', getitem leds 1),
     (''o_LED_POWER'', getitem leds 0),
     (''i_BTN_OSD'', bnd (request ''user_btn'' (Some 0)) wrap),
     (''i_BTN_RESET'', bnd (request ''user_btn'' (Some 1)) wrap),

     (''o_SD_SPI_CS'', attr sdcard ''sel''),
     (''i_SD_SPI_MISO'', bnd (attr sdcard ''data'') (\<lambda>data. getitem data 0)),
     (''o_SD_SPI_CLK'', attr sdcard ''clk''),
     (''o_SD_SPI_MOSI'', attr sdcard ''cmd''),

     (''i_HPS_SPI_MOSI'', attr hps_spi ''mosi''),
     (''o_HPS_SPI_MISO'', attr hps_spi ''miso''),
     (''i_HPS_SPI_CLK'', attr hps_spi ''clk''),
     (''i_HPS_SPI_CS'', attr hps_spi ''cs_n''),

     (''i_HPS_FPGA_ENABLE'', attr hps_control ''fpga_enable''),
     (''i_HPS_OSD_ENABLE'', attr hps_control ''osd_enable''),
     (''i_HPS_IO_ENABLE'', attr hps_control ''io_enable''),
     (''i_HPS_CORE_RESET'', attr hps_control ''core_reset''),

     (''i_ddr3_clk_i'', ret avalon_clock),
     (''o_ddr3_address_o'', ret avalon_address),
     (''o_ddr3_byteenable_o'', ret avalon_byteenable),
     (''o_ddr3_read_o'', ret avalon_read),
     (''i_ddr3_readdata_i'', ret avalon_readdata),
     (''o_ddr3_burstcount_o'', ret avalon_burstcount),
     (''o_ddr3_write_o'', ret avalon_write),
     (''o_ddr3_writedata_o'', ret avalon_writedata),
     (''i_ddr3_waitrequest_i'', ret avalon_waitrequest),
     (''i_ddr3_readdatavalid_i'', ret avalon_readdatavalid)]"

text \<open>
  The items of the two instances once every keyword argument has been evaluated:
  \<open>pin obj f\<close> is the subsignal \<open>f\<close> of what was requested.
\<close>

definition pin :: "pads \<Rightarrow> string \<Rightarrow> expr" where
  "pin obj f = (case field obj f of None \<Rightarrow> Constant 0 | Some e \<Rightarrow> e)"

fun is_pad :: "expr \<Rightarrow> bool" where
  "is_pad (V (Pad r i f w)) = True"
| "is_pad e = False"

text \<open>
  What the platform \<open>p\<close> can hand out: \<open>provides p n num obj\<close> when
  \<open>obj\<close> is made from a resource of \<open>p\<close> with the name \<open>n\<close> (and
  the number \<open>num\<close>, if one is asked for), and \<open>has_pins p n i w\<close> when
  the resource \<open>n\<close> with number \<open>i\<close> has \<open>w\<close> pins of its own.
\<close>

definition provides :: "platform \<Rightarrow> string \<Rightarrow> nat option \<Rightarrow> pads \<Rightarrow> bool" where
  "provides p n num obj =
     (\<exists>i cs. Resource n i cs \<in> set (available p) \<and> (num = None \<or> num = Some i) \<and>
        new_pads (Resource n i cs) = Inr obj)"

definition has_pins :: "platform \<Rightarrow> string \<Rightarrow> nat \<Rightarrow> nat \<Rightarrow> bool" where
  "has_pins p n i w = (\<exists>cs. Resource n i cs \<in> set (available p) \<and> n_bits cs = Some w)"

text \<open>Every resource of the platform with the name \<open>n\<close> is a single pin.\<close>

definition single_pins :: "platform \<Rightarrow> string \<Rightarrow> bool" where
  "single_pins p n =
     list_all (\<lambda>r. case r of Resource n' i cs \<Rightarrow> n' \<noteq> n \<or> n_bits cs = Some 1) (available p)"

definition has_fields :: "pads \<Rightarrow> string list \<Rightarrow> bool" where
  "has_fields obj fs = list_all (\<lambda>f. field obj f \<noteq> None) fs"

definition ddr3_items :: "pads \<Rightarrow> item list" where
  "ddr3_items ddram = [
     Input ''pll_ref_clk'' clk50,
     Input ''global_reset_n'' (Inv (V (ResetSignal ''sys''))),
     Input ''soft_reset_n'' (Inv (V (ResetSignal ''sys''))),
     Output ''afi_clk'' avalon_clock,
     Output ''afi_half_clk'' afi_half_clk,
     Output ''afi_reset_n'' afi_reset_export_n,
     Output ''afi_reset_export_n'' afi_reset_n,
     Output ''mem_a'' (pin ddram ''a''),
     Output ''mem_ba'' (pin ddram ''ba''),
     InOut ''mem_ck'' (pin ddram ''clk_p''),
     InOut ''mem_ck_n'' (pin ddram ''clk_n''),
     Output ''mem_cke'' (pin ddram ''cke''),
     Output ''mem_cs_n'' (pin ddram ''cs_n''),
     Output ''mem_dm'' (pin ddram ''dm''),
     Output ''mem_ras_n'' (pin ddram ''ras_n''),
     Output ''mem_cas_n'' (pin ddram ''cas_n''),
     Output ''mem_we_n'' (pin ddram ''we_n''),
     Output ''mem_reset_n'' (pin ddram ''reset_n''),
     InOut ''mem_dq'' (pin ddram ''dq''),
     InOut ''mem_dqs'' (pin ddram ''dqs_p''),
     InOut ''mem_dqs_n'' (pin ddram ''dqs_n''),
     Output ''mem_odt'' (pin ddram ''odt''),
     Output ''avl_ready'' avalon_ready,
     Input ''avl_burstbegin'' avalon_burstbegin,
     Input ''avl_addr'' avalon_address,
     Output ''avl_rdata_valid'' avalon_readdatavalid,
     Output ''avl_rdata'' avalon_readdata,
     Input ''avl_wdata'' avalon_writedata,
     Input ''avl_be'' avalon_byteenable,
     Input ''avl_read_req'' avalon_read,
     Input ''avl_write_req'' avalon_write,
     Input ''avl_size'' avalon_burstcount,
     Output ''local_init_done'' (Slice leds 5 6),
     Output ''local_cal_success'' (Slice leds 6 7),
     Output ''local_cal_fail'' (Slice leds 7 8),
     Output ''pll_locked'' (Slice leds 4 5)]"

definition sys_top_items ::
  "pads \<Rightarrow> pads \<Rightarrow> pads \<Rightarrow> pads \<Rightarrow> pads \<Rightarrow> pads \<Rightarrow> pads \<Rightarrow> expr \<Rightarrow> expr \<Rightarrow> expr \<Rightarrow> item list" where
  "sys_top_items hdmi_i2c hdmi_i2s hdmi sdram sdcard hps_spi hps_control
       sdram_clock btn_osd btn_reset = [
     Parameter ''DW'' (Constant DW),
     Parameter ''AW'' (Constant AW),
     Input ''CLK_50'' clk50,
     Output ''HDMI_I2C_SCL'' (pin hdmi_i2c ''scl''),
     InOut ''HDMI_I2C_SDA'' (pin hdmi_i2c ''sda''),
     Output ''HDMI_MCLK'' (pin hdmi_i2s ''mclk''),
     Output ''HDMI_SCLK'' (pin hdmi_i2s ''sclk''),
     Output ''HDMI_LRCLK'' (pin hdmi_i2s ''lrclk''),
     Output ''HDMI_I2S'' (pin hdmi_i2s ''i2s''),
     Output ''HDMI_TX_D'' (Cat [pin hdmi ''r'', pin hdmi ''g'', pin hdmi ''b'']),
     Output ''HDMI_TX_CLK'' (pin hdmi ''clk''),
     Output ''HDMI_TX_DE'' (pin hdmi ''de''),
     Output ''HDMI_TX_HS'' (pin hdmi ''hsync''),
     Output ''HDMI_TX_VS'' (pin hdmi ''vsync''),
     Input ''HDMI_TX_INT'' (pin hdmi ''int''),
     Output ''SDRAM_A'' (pin sdram ''a''),
     InOut ''SDRAM_DQ'' (pin sdram ''dq''),
     Output ''SDRAM_nWE'' (pin sdram ''we_n''),
     Output ''SDRAM_nCAS'' (pin sdram ''cas_n''),
     Output ''SDRAM_nRAS'' (pin sdram ''ras_n''),
     Output ''SDRAM_nCS'' (pin sdram ''cs_n''),
     Output ''SDRAM_BA'' (pin sdram ''ba''),
     Output ''SDRAM_CLK'' sdram_clock,
     Output ''LED_USER'' (Slice leds 2 3),
     Output ''LED_HDD'' (Slice leds 1 2),
     Output ''LED_POWER'' (Slice leds 0 1),
     Input ''BTN_OSD'' btn_osd,
     Input ''BTN_RESET'' btn_reset,
     Output ''SD_SPI_CS'' (pin sdcard ''sel''),
     Input ''SD_SPI_MISO'' (Slice (pin sdcard ''data'') 0 1),
     Output ''SD_SPI_CLK'' (pin sdcard ''clk''),
     Output ''SD_SPI_MOSI'' (pin sdcard ''cmd''),
     Input ''HPS_SPI_MOSI'' (pin hps_spi ''mosi''),
     Output ''HPS_SPI_MISO'' (pin hps_spi ''miso''),
     Input ''HPS_SPI_CLK'' (pin hps_spi ''clk''),
     Input ''HPS_SPI_CS'' (pin hps_spi ''cs_n''),
     Input ''HPS_FPGA_ENABLE'' (pin hps_control ''fpga_enable''),
     Input ''HPS_OSD_ENABLE'' (pin hps_control ''osd_enable''),
     Input ''HPS_IO_ENABLE'' (pin hps_control ''io_enable''),
     Input ''HPS_CORE_RESET'' (pin hps_control ''core_reset''),
     Input ''ddr3_clk_i'' avalon_clock,
     Output ''ddr3_address_o'' avalon_address,
     Output ''ddr3_byteenable_o'' avalon_byteenable,
     Output ''ddr3_read_o'' avalon_read,
     Input ''ddr3_readdata_i'' avalon_readdata,
     Output ''ddr3_burstcount_o'' avalon_burstcount,
     Output ''ddr3_write_o'' avalon_write,
     Output ''ddr3_writedata_o'' avalon_writedata,
     Input ''ddr3_waitrequest_i'' avalon_waitrequest,
     Input ''ddr3_readdatavalid_i'' avalon_readdatavalid]"

text \<open>
  The branch taken when \<^verbatim>\<open>self.debug\<close> is true: a SPI bus master on the
  pads of the resource \<^verbatim>\<open>spibone\<close> and a logic analyzer on the bus.
\<close>

definition analyzer_signals :: "expr list" where
  "analyzer_signals = [avalon_clock, avalon_address, avalon_waitrequest, avalon_read,
     avalon_readdatavalid, avalon_write, avalon_burstcount, avalon_byteenable]"

definition add_debug :: "top \<Rightarrow> (platform, top) action" where
  "add_debug self =
     bnd (request ''spibone'' None) (\<lambda>spibone_pads.
     let self = self\<lparr>submodules := submodules self @ [(''spibone'', SPIBone spibone_pads)]\<rparr>;
         self = self\<lparr>wb_masters := wb_masters self @ [''spibone'']\<rparr>;
         self = self\<lparr>submodules := submodules self @
           [(''analyzer'',
             LiteScopeAnalyzer analyzer_signals 4096 150000000 ''sys'' ''analyzer.csv'')]\<rparr>
     in ret self)"

definition soc_kwargs :: "(string \<times> pyval) list" where
  "soc_kwargs = [
     (''uart_name'', PyStr ''stub''),
     (''cpu_type'', PyStr ''None''),
     (''l2_size'', PyInt 0),
     (''bus_data_width'', PyInt 32),
     (''bus_address_width'', PyInt 32),
     (''integrated_rom_size'', PyInt 0),
     (''integrated_sram_size'', PyInt 0)]"

definition Top :: "(platform, top) action" where
  "Top =
     bnd (request ''sdram'' None) (\<lambda>sdram.
     bnd (request ''ddram'' None) (\<lambda>ddram.
     bnd (request ''hps_i2c'' None) (\<lambda>hps_i2c.
     bnd (request ''hdmi'' None) (\<lambda>hdmi.
     bnd (request ''hdmi_i2c'' None) (\<lambda>hdmi_i2c.
     bnd (request ''hdmi_i2s'' None) (\<lambda>hdmi_i2s.
     bnd (request ''sdcard'' None) (\<lambda>sdcard.
     bnd (request ''hps_spi'' None) (\<lambda>hps_spi.
     bnd (request ''hps_control'' None) (\<lambda>hps_control.

     bnd (collect (map (\<lambda>l. request ''user_led'' (Some l)) [0..<8])) (\<lambda>user_led.
     bnd (collect (map wrap user_led)) (\<lambda>user_led.
     let self = new_top\<lparr>comb := [Assign (Cat user_led) (Inv leds)]\<rparr> in

     bnd (bnd (request ''clk50'' None) wrap) (\<lambda>clk50_pad.
     let self = self\<lparr>comb := comb self @ [Assign clk50 clk50_pad]\<rparr>;

         self = self\<lparr>debug := Some False\<rparr>;

         self = self\<lparr>clock_domains := clock_domains self @ [''sys'']\<rparr>;
         self = self\<lparr>clock_domains := clock_domains self @ [''avalon'']\<rparr>;

         self = self\<lparr>soc := Some (SoCCore sys_clk_freq
                  ''LiteX SoC on MiSTeX / Terasic DECA cape'' soc_kwargs)\<rparr> in

     bnd (ddr3 ddram) (\<lambda>ddr3.
     let self = self\<lparr>specials := specials self @ [ddr3]\<rparr>;

         self = self\<lparr>comb := comb self @ [
           Assign avalon_burstbegin (And avalon_write avalon_read),
           Assign avalon_waitrequest (Inv avalon_ready),
           Assign (V (ClockSignal ''avalon'')) avalon_clock,
           Assign (V (ClockSignal ''sys'')) (V (ClockSignal ''avalon''))]\<rparr> in

     bnd (sys_top hdmi_i2c hdmi_i2s hdmi sdram sdcard hps_spi hps_control) (\<lambda>sys_top.
     let self = self\<lparr>specials := specials self @ [sys_top]\<rparr> in

     (case debug self of
        None \<Rightarrow> raise (AttributeError ''debug'')
      | Some d \<Rightarrow> if d then add_debug self else ret self)))))))))))))))"

section \<open>What a design means\<close>

text \<open>
  A valuation is a behaviour of the design at one instant when it satisfies every
  combinatorial assignment. The outputs of the black boxes are not constrained.
\<close>

definition satisfies :: "valuation \<Rightarrow> top \<Rightarrow> bool" where
  "satisfies \<sigma> d = list_all (holds \<sigma>) (comb d)"

text \<open>
  The bits that something in the design drives: the targets of the assignments and the
  output and bidirectional ports of the instances.
\<close>

fun target :: "statement \<Rightarrow> (signal \<times> nat) list" where
  "target (Assign lhs rhs) = bits_of lhs"

definition driven :: "top \<Rightarrow> (signal \<times> nat) list" where
  "driven d = concat (map target (comb d)) @
              concat (map (\<lambda>i. concat (map item_drives (items i))) (specials d))"

text \<open>
  A bit of a signal that nothing drives keeps its reset value, which is 0 for a
  \<^verbatim>\<open>Signal\<close> created without one.
\<close>

definition undriven_at_reset :: "valuation \<Rightarrow> top \<Rightarrow> expr \<Rightarrow> bool" where
  "undriven_at_reset \<sigma> d e =
     list_all (\<lambda>(s, i). (s, i) \<in> set (driven d) \<or> (\<sigma> s div 2 ^ i) mod 2 = 0) (bits_of e)"

text \<open>The port of an instance of the design: the module, then the name of the port.\<close>

definition port :: "top \<Rightarrow> string \<Rightarrow> string \<Rightarrow> item list" where
  "port d m n = concat (map (\<lambda>i. bindings i n) (filter (\<lambda>i. of_module i = m) (specials d)))"

text \<open>The items of an instance of the design that are connected to a given value.\<close>

definition uses :: "top \<Rightarrow> string \<Rightarrow> expr \<Rightarrow> item list" where
  "uses d m e =
     concat (map (\<lambda>i. filter (\<lambda>it. item_expr it = e) (items i))
       (filter (\<lambda>i. of_module i = m) (specials d)))"

section \<open>The build: \<^verbatim>\<open>main\<close>\<close>

text \<open>
  What \<^verbatim>\<open>main\<close> works on: its local variable
  \<^verbatim>\<open>platform\<close>, which has no value before
  \<^verbatim>\<open>terasic_deca.Platform()\<close> has returned, and the files on disk.
\<close>

record session =
  the_platform :: "platform option"
  disk :: "string list"

record builder =
  builder_soc :: top
  build_backend :: string
  gateware_dir :: string
  software_dir :: string
  compile_gateware :: bool
  compile_software :: bool
  csr_csv :: string

text \<open>
  What \<^verbatim>\<open>main\<close> calls and does not define: the file system and the YAML
  parser, the board's platform, the helpers of the module \<^verbatim>\<open>util\<close>, the
  builder, and the command interpreter, which returns the exit status of the command it
  ran.
\<close>

record env =
  open_read :: "string \<Rightarrow> error + string"
  yaml_load :: "string \<Rightarrow> error + yaml"
  getcwd :: string
  Platform :: platform
  add_designfiles :: "string \<Rightarrow> yaml \<Rightarrow> string \<Rightarrow> (session, unit) action"
  generate_build_id :: "string \<Rightarrow> (session, unit) action"
  add_mainfile :: "string \<Rightarrow> yaml \<Rightarrow> (session, unit) action"
  get_build_dir :: "string \<Rightarrow> string"
  get_build_name :: "string \<Rightarrow> string"
  build :: "builder \<Rightarrow> string \<Rightarrow> (session, unit) action"
  system :: "string \<Rightarrow> session \<Rightarrow> int \<times> session"

definition join :: "string \<Rightarrow> string \<Rightarrow> string" where
  "join a b =
     (if b \<noteq> [] \<and> hd b = CHR ''/'' then b
      else if a = [] \<or> last a = CHR ''/'' then a @ b
      else a @ ''/'' @ b)"

definition load_manifest :: "env \<Rightarrow> string \<Rightarrow> ('s, yaml) action" where
  "load_manifest e path =
     (case open_read e path of
        Inl err \<Rightarrow> raise err
      | Inr text \<Rightarrow> (case yaml_load e text of Inl err \<Rightarrow> raise err | Inr y \<Rightarrow> ret y))"

definition new_platform :: "env \<Rightarrow> (session, unit) action" where
  "new_platform e s = (Inr (), s\<lparr>the_platform := Some (Platform e)\<rparr>)"

definition on_platform :: "(platform, 'a) action \<Rightarrow> (session, 'a) action" where
  "on_platform m s =
     (case the_platform s of
        None \<Rightarrow> (Inl (NameError ''platform''), s)
      | Some p \<Rightarrow> (case m p of (r, p') \<Rightarrow> (r, s\<lparr>the_platform := Some p'\<rparr>)))"

definition os_system :: "env \<Rightarrow> string \<Rightarrow> (session, int) action" where
  "os_system e cmd s = (case system e cmd s of (status, s') \<Rightarrow> (Inr status, s'))"

definition quote :: string where
  "quote = [CHR 0x22]"

definition fitter_commands :: "string \<Rightarrow> command list" where
  "fitter_commands cwd = [
     Command (''set_global_assignment -name QIP_FILE '' @ cwd @ ''/rtl/deca-ddr3/ddr3.qip''),
     Command ''set_global_assignment -name TIMEQUEST_MULTICORNER_ANALYSIS OFF'',
     Command ''set_global_assignment -name OPTIMIZE_POWER_DURING_FITTING OFF'',
     Command ''set_global_assignment -name FINAL_PLACEMENT_OPTIMIZATION ALWAYS'',
     Command (''set_global_assignment -name FITTER_EFFORT '' @ quote @ ''STANDARD FIT'' @ quote),
     Command (''set_global_assignment -name OPTIMIZATION_MODE '' @ quote @ ''HIGH PERFORMANCE EFFORT'' @ quote),
     Command ''set_global_assignment -name ALLOW_POWER_UP_DONT_CARE ON'',
     Command (''set_global_assignment -name QII_AUTO_PACKED_REGISTERS '' @ quote @ ''SPARSE AUTO'' @ quote),
     Command ''set_global_assignment -name ROUTER_LCELL_INSERTION_AND_LOGIC_DUPLICATION ON'',
     Command ''set_global_assignment -name PHYSICAL_SYNTHESIS_COMBO_LOGIC ON'',
     Command ''set_global_assignment -name PHYSICAL_SYNTHESIS_EFFORT EXTRA'',
     Command ''set_global_assignment -name PHYSICAL_SYNTHESIS_REGISTER_DUPLICATION ON'',
     Command ''set_global_assignment -name PHYSICAL_SYNTHESIS_REGISTER_RETIMING ON'',
     Command ''set_global_assignment -name OPTIMIZATION_TECHNIQUE SPEED'',
     Command ''set_global_assignment -name MUX_RESTRUCTURE ON'',
     Command ''set_global_assignment -name REMOVE_REDUNDANT_LOGIC_CELLS ON'',
     Command ''set_global_assignment -name AUTO_DELAY_CHAINS_FOR_HIGH_FANOUT_INPUT_PINS ON'',
     Command ''set_global_assignment -name PHYSICAL_SYNTHESIS_COMBO_LOGIC_FOR_AREA ON'',
     Command ''set_global_assignment -name ADV_NETLIST_OPT_SYNTH_WYSIWYG_REMAP ON'',
     Command ''set_global_assignment -name SYNTH_GATED_CLOCK_CONVERSION ON'',
     Command ''set_global_assignment -name PRE_MAPPING_RESYNTHESIS ON'',
     Command ''set_global_assignment -name ROUTER_CLOCKING_TOPOLOGY_ANALYSIS ON'',
     Command ''set_global_assignment -name ECO_OPTIMIZE_TIMING ON'',
     Command ''set_global_assignment -name PERIPHERY_TO_CORE_PLACEMENT_AND_ROUTING_OPTIMIZATION ON'',
     Command ''set_global_assignment -name PHYSICAL_SYNTHESIS_ASYNCHRONOUS_SIGNAL_PIPELINING ON'',
     Command ''set_global_assignment -name ALM_REGISTER_PACKING_EFFORT LOW'',
     Command ''set_global_assignment -name OPTIMIZE_POWER_DURING_SYNTHESIS OFF'',
     Command ''set_global_assignment -name ROUTER_REGISTER_DUPLICATION ON'',
     Command ''set_global_assignment -name FITTER_AGGRESSIVE_ROUTABILITY_OPTIMIZATION ALWAYS'',
     Command ''set_global_assignment -name SEED 1'']"

definition baseline_defines :: "(string, yaml) dict" where
  "baseline_defines = [
     (''ALTERA'', YInt 1),
     (''OSD_HEADER'', YInt 1),
     (''CRG_AUDIO_CLK'', YInt 1),
     (''HARDWARE_HDMI_INIT'', YInt 1),
     (''NO_SCANDOUBLER'', YInt 1),
     (''DISABLE_VGA'', YInt 1),
     (''SKIP_SHADOWMASK'', YInt 1),
     (''SKIP_IIR_FILTER'', YInt 1),
     (''MISTER_DISABLE_YC'', YInt 1),
     (''MISTER_DISABLE_ALSA'', YInt 1)]"

definition extension :: "resource list" where
  "extension = [
     Resource ''hps_i2c'' 0 [
       Subsignal ''sda'' [Pins [''P9:26'']],
       Subsignal ''scl'' [Pins [''P9:27'']],
       IOStandard ''3.3-V LVTTL''],
     Resource ''hps_spi'' 0 [
       Subsignal ''mosi'' [Pins [''P9:23'']],
       Subsignal ''miso'' [Pins [''P9:24'']],
       Subsignal ''clk'' [Pins [''P9:22'']],
       Subsignal ''cs_n'' [Pins [''P9:21'']],
       IOStandard ''3.3-V LVTTL''],
     Resource ''hps_control'' 0 [
       Subsignal ''fpga_enable'' [Pins [''P9:18'']],
       Subsignal ''osd_enable'' [Pins [''P9:19'']],
       Subsignal ''io_enable'' [Pins [''P9:20'']],
       Subsignal ''core_reset'' [Pins [''P9:17'']],
       IOStandard ''3.3-V LVTTL''],
     Resource ''sdram_clock'' 0 [Pins [''P8:22''], IOStandard ''3.3-V LVTTL''],
     Resource ''sdram'' 0 [
       Subsignal ''a'' [Pins [
         ''P8:39 P8:40 P8:41 P8:42 P8:30 P8:27 P8:28 P8:25'',
         ''P8:26 P8:23 P8:38 P8:24 P8:21'']],
       Subsignal ''ba'' [Pins [''P8:36 P8:37'']],
       Subsignal ''cs_n'' [Pins [''P8:35'']],
       Subsignal ''ras_n'' [Pins [''P8:34'']],
       Subsignal ''cas_n'' [Pins [''P8:33'']],
       Subsignal ''we_n'' [Pins [''P8:29'']],
       Subsignal ''dq'' [Pins [
         ''P8:3  P8:4  P8:5  P8:6  P8:7  P8:8  P8:9  P8:10 '',
         ''P8:20 P8:19 P8:18 P8:17 P8:16 P8:15 P8:12 P8:11'']],
       IOStandard ''3.3-V LVTTL''],
     Resource ''spibone'' 0 [
       Subsignal ''clk'' [Pins [''P8:13'']],
       Subsignal ''mosi'' [Pins [''P8:31'']],
       Subsignal ''miso'' [Pins [''P8:43'']],
       Subsignal ''cs_n'' [Pins [''P9:41'']],
       IOStandard ''3.3-V LVCMOS'']]"

definition main :: "env \<Rightarrow> string \<Rightarrow> (session, unit) action" where
  "main e core =
     (let coredir = join ''cores'' core in

      bnd (load_manifest e (join coredir ''MiSTeX.yaml'')) (\<lambda>mistex_yaml.

      bnd (new_platform e) (\<lambda>_.

      bnd (add_designfiles e coredir mistex_yaml ''quartus'') (\<lambda>_.

      bnd (generate_build_id e coredir) (\<lambda>_.
      bnd (add_mainfile e coredir mistex_yaml) (\<lambda>_.

      bnd (on_platform (for_each (fitter_commands (getcwd e)) add_platform_command)) (\<lambda>_.

      bnd (yaml_get mistex_yaml ''defines'' (YMap [])) (\<lambda>defines.
      bnd (yaml_update defines baseline_defines) (\<lambda>defines.

      bnd (yaml_items defines) (\<lambda>its.
      bnd (on_platform (for_each its
             (\<lambda>(key, value). add_platform_command (VERILOG_MACRO key value)))) (\<lambda>_.

      bnd (on_platform (add_extension extension)) (\<lambda>_.

      let build_dir = get_build_dir e core;
          build_name = get_build_name e core in

      bnd (on_platform Top) (\<lambda>top.
      let builder = \<lparr>builder_soc = top,
            build_backend = ''litex'',
            gateware_dir = build_dir,
            software_dir = join build_dir ''software'',
            compile_gateware = True,
            compile_software = True,
            csr_csv = ''csr.csv''\<rparr> in

      bnd (build e builder (get_build_name e core)) (\<lambda>_.

      bnd (os_system e (''quartus_cpf -c -q 24.0MHz -g 3.3 -n p '' @ build_dir @ ''/'' @
             build_name @ ''.sof '' @ build_dir @ ''/'' @ build_name @ ''.svf'')) (\<lambda>_.
      ret ())))))))))))))))"

section \<open>An example board\<close>

text \<open>
  A board descriptor with the resources that the platform of the board provides and
  \<^verbatim>\<open>main\<close> does not add: the clock, eight LEDs, two buttons, the DDR3
  memory, the HDMI transmitter with its control and audio buses, and the SD card. The
  pins carry placeholder names; only their number matters here.
\<close>

definition example_board :: "resource list" where
  "example_board = [
     Resource ''clk50'' 0 [Pins [''X''], IOStandard ''2.5 V''],
     Resource ''user_led'' 0 [Pins [''X''], IOStandard ''1.2 V''],
     Resource ''user_led'' 1 [Pins [''X''], IOStandard ''1.2 V''],
     Resource ''user_led'' 2 [Pins [''X''], IOStandard ''1.2 V''],
     Resource ''user_led'' 3 [Pins [''X''], IOStandard ''1.2 V''],
     Resource ''user_led'' 4 [Pins [''X''], IOStandard ''1.2 V''],
     Resource ''user_led'' 5 [Pins [''X''], IOStandard ''1.2 V''],
     Resource ''user_led'' 6 [Pins [''X''], IOStandard ''1.2 V''],
     Resource ''user_led'' 7 [Pins [''X''], IOStandard ''1.2 V''],
     Resource ''user_btn'' 0 [Pins [''X''], IOStandard ''1.5 V''],
     Resource ''user_btn'' 1 [Pins [''X''], IOStandard ''1.5 V''],
     Resource ''ddram'' 0 [
       Subsignal ''a'' [Pins [''X X X X X X X X X X X X X X X'']],
       Subsignal ''ba'' [Pins [''X X X'']],
       Subsignal ''ras_n'' [Pins [''X'']],
       Subsignal ''cas_n'' [Pins [''X'']],
       Subsignal ''we_n'' [Pins [''X'']],
       Subsignal ''dm'' [Pins [''X X'']],
       Subsignal ''dq'' [Pins [''X X X X X X X X'', ''X X X X X X X X'']],
       Subsignal ''dqs_p'' [Pins [''X X'']],
       Subsignal ''dqs_n'' [Pins [''X X'']],
       Subsignal ''clk_p'' [Pins [''X'']],
       Subsignal ''clk_n'' [Pins [''X'']],
       Subsignal ''cs_n'' [Pins [''X'']],
       Subsignal ''cke'' [Pins [''X'']],
       Subsignal ''odt'' [Pins [''X'']],
       Subsignal ''reset_n'' [Pins [''X'']],
       IOStandard ''SSTL-15''],
     Resource ''hdmi'' 0 [
       Subsignal ''r'' [Pins [''X X X X X X X X'']],
       Subsignal ''g'' [Pins [''X X X X X X X X'']],
       Subsignal ''b'' [Pins [''X X X X X X X X'']],
       Subsignal ''clk'' [Pins [''X'']],
       Subsignal ''de'' [Pins [''X'']],
       Subsignal ''hsync'' [Pins [''X'']],
       Subsignal ''vsync'' [Pins [''X'']],
       Subsignal ''int'' [Pins [''X'']],
       IOStandard ''1.8 V''],
     Resource ''hdmi_i2c'' 0 [
       Subsignal ''scl'' [Pins [''X'']],
       Subsignal ''sda'' [Pins [''X'']],
       IOStandard ''1.8 V''],
     Resource ''hdmi_i2s'' 0 [
       Subsignal ''i2s'' [Pins [''X X X X'']],
       Subsignal ''mclk'' [Pins [''X'']],
       Subsignal ''lrclk'' [Pins [''X'']],
       Subsignal ''sclk'' [Pins [''X'']],
       IOStandard ''1.8 V''],
     Resource ''sdcard'' 0 [
       Subsignal ''data'' [Pins [''X X X X'']],
       Subsignal ''cmd'' [Pins [''X'']],
       Subsignal ''clk'' [Pins [''X'']],
       Subsignal ''sel'' [Pins [''X'']],
       IOStandard ''1.5 V'']]"

text \<open>The platform as \<^verbatim>\<open>main\<close> hands it to \<^verbatim>\<open>Top\<close>.\<close>

definition example_platform :: platform where
  "example_platform =
     \<lparr>available = example_board @ extension, matched = [], platform_commands = []\<rparr>"

text \<open>What the requests of \<^verbatim>\<open>Top.__init__\<close> return on this platform.\<close>

definition example_ddram :: pads where
  "example_ddram = Record ''ddram'' 0 [
     (''a'', 15), (''ba'', 3), (''ras_n'', 1), (''cas_n'', 1), (''we_n'', 1), (''dm'', 2),
     (''dq'', 16), (''dqs_p'', 2), (''dqs_n'', 2), (''clk_p'', 1), (''clk_n'', 1),
     (''cs_n'', 1), (''cke'', 1), (''odt'', 1), (''reset_n'', 1)]"

definition example_hdmi :: pads where
  "example_hdmi = Record ''hdmi'' 0 [
     (''r'', 8), (''g'', 8), (''b'', 8), (''clk'', 1), (''de'', 1), (''hsync'', 1),
     (''vsync'', 1), (''int'', 1)]"

definition example_hdmi_i2c :: pads where
  "example_hdmi_i2c = Record ''hdmi_i2c'' 0 [(''scl'', 1), (''sda'', 1)]"

definition example_hdmi_i2s :: pads where
  "example_hdmi_i2s = Record ''hdmi_i2s'' 0 [
     (''i2s'', 4), (''mclk'', 1), (''lrclk'', 1), (''sclk'', 1)]"

definition example_sdcard :: pads where
  "example_sdcard = Record ''sdcard'' 0 [(''data'', 4), (''cmd'', 1), (''clk'', 1), (''sel'', 1)]"

definition example_sdram :: pads where
  "example_sdram = Record ''sdram'' 0 [
     (''a'', 13), (''ba'', 2), (''cs_n'', 1), (''ras_n'', 1), (''cas_n'', 1), (''we_n'', 1),
     (''dq'', 16)]"

definition example_hps_spi :: pads where
  "example_hps_spi = Record ''hps_spi'' 0 [
     (''mosi'', 1), (''miso'', 1), (''clk'', 1), (''cs_n'', 1)]"

definition example_hps_control :: pads where
  "example_hps_control = Record ''hps_control'' 0 [
     (''fpga_enable'', 1), (''osd_enable'', 1), (''io_enable'', 1), (''core_reset'', 1)]"

definition example_top :: top where
  "example_top =
     \<lparr>comb = [
        Assign (Cat (map (\<lambda>l. V (Pad ''user_led'' l [] 1)) [0..<8])) (Inv leds),
        Assign clk50 (V (Pad ''clk50'' 0 [] 1)),
        Assign avalon_burstbegin (And avalon_write avalon_read),
        Assign avalon_waitrequest (Inv avalon_ready),
        Assign (V (ClockSignal ''avalon'')) avalon_clock,
        Assign (V (ClockSignal ''sys'')) (V (ClockSignal ''avalon''))],
      specials = [
        Inst ''ddr3'' (ddr3_items example_ddram),
        Inst ''sys_top'' (sys_top_items example_hdmi_i2c example_hdmi_i2s example_hdmi
          example_sdram example_sdcard example_hps_spi example_hps_control
          (V (Pad ''sdram_clock'' 0 [] 1))
          (V (Pad ''user_btn'' 0 [] 1))
          (V (Pad ''user_btn'' 1 [] 1)))],
      clock_domains = [''sys'', ''avalon''],
      debug = Some False,
      soc = Some (SoCCore sys_clk_freq ''LiteX SoC on MiSTeX / Terasic DECA cape'' soc_kwargs),
      submodules = [],
      wb_masters = []\<rparr>"

text \<open>
  A valuation of the signals of that design: a write and a read strobe at once, the
  controller not ready, the LED bits 0 and 2 set, every clock high.
\<close>

fun example_valuation :: valuation where
  "example_valuation (Signal n w) =
     (if n = ''leds'' then 5
      else if n \<in> {''avalon_write'', ''avalon_read'', ''avalon_burstbegin'',
                     ''avalon_waitrequest'', ''avalon_clock''} then 1
      else 0)"
| "example_valuation (Pad r i f w) =
     (if r = ''user_led'' then (if i = 0 \<or> i = 2 then 0 else 1)
      else if r = ''hdmi'' then (if f = ''r'' then 0x12 else if f = ''g'' then 0x34
                                 else if f = ''b'' then 0x56 else 0)
      else 0)"
| "example_valuation (ClockSignal cd) = 1"
| "example_valuation (ResetSignal cd) = 0"

section \<open>Properties of the dictionary operations\<close>










section \<open>The merge of the defines\<close>



section \<open>Successful runs\<close>

text \<open>What is known when an action has returned a value.\<close>

lemma bnd_Inr:
  "bnd m f s = (Inr r, s') \<longleftrightarrow> (\<exists>x q. m s = (Inr x, q) \<and> f x q = (Inr r, s'))"
  by (auto simp: bnd_def split: prod.splits sum.splits)

lemma ret_Inr: "ret x s = (Inr r, s') \<longleftrightarrow> r = x \<and> s' = s"
  by (auto simp: ret_def)

lemma raise_Inr: "raise e s = (Inr r, s') \<longleftrightarrow> False"
  by (simp add: raise_def)

lemma attr_Inr:
  "attr obj f s = (Inr e, s') \<longleftrightarrow> s' = s \<and> field obj f = Some e"
  by (auto simp: attr_def ret_def raise_def split: option.splits)

lemma wrap_Inr:
  "wrap obj s = (Inr e, s') \<longleftrightarrow> s' = s \<and> (\<exists>r i w. obj = Wire r i w \<and> e = V (Pad r i [] w))"
  by (auto simp: wrap_def ret_def raise_def split: pads.splits)

lemma getitem_Inr:
  "getitem e i s = (Inr x, s') \<longleftrightarrow> s' = s \<and> i < len e \<and> x = Slice e i (Suc i)"
  by (auto simp: getitem_def ret_def raise_def)

lemma collect_Nil_Inr: "collect [] s = (Inr xs, s') \<longleftrightarrow> xs = [] \<and> s' = s"
  by (auto simp: ret_def)

lemma collect_Cons_Inr:
  "collect (m # ms) s = (Inr xs, s') \<longleftrightarrow>
     (\<exists>y ys q. m s = (Inr y, q) \<and> collect ms q = (Inr ys, s') \<and> xs = y # ys)"
  by (auto simp: bnd_Inr ret_Inr)

lemma item_of_Inr:
  "item_of (k, v) s = (Inr it, s') \<longleftrightarrow> s' = s \<and>
     (\<exists>t n. split_key [] k = Some (t, n) \<and>
        (t = ''i'' \<and> it = Input n v \<or> t = ''o'' \<and> it = Output n v \<or>
         t = ''io'' \<and> it = InOut n v \<or> t = ''p'' \<and> it = Parameter n v))"
  by (auto simp: item_of_def ret_def raise_def split: option.splits)

lemmas inversion = bnd_Inr ret_Inr raise_Inr attr_Inr wrap_Inr getitem_Inr collect_Nil_Inr
  collect_Cons_Inr item_of_Inr

lemma len_leds: "len leds = 8" by (simp add: leds_def)

lemma pin_field: "field obj f = Some e \<Longrightarrow> pin obj f = e"
  by (simp add: pin_def)

lemma ddr3_Inr:
  assumes "ddr3 ddram p = (Inr i, p')"
  shows "p' = p \<and> i = Inst ''ddr3'' (ddr3_items ddram)"
  using assms unfolding ddr3_def Instance_def
  apply (clarsimp simp: inversion len_leds)
  apply (simp add: ddr3_items_def pin_field)
  done


lemma sys_top_Inr:
  assumes "sys_top hdmi_i2c hdmi_i2s hdmi sdram sdcard hps_spi hps_control p = (Inr i, p')"
  shows "\<exists>sdram_clock btn_osd btn_reset.
     is_pad sdram_clock \<and> is_pad btn_osd \<and> is_pad btn_reset \<and>
     field hdmi ''r'' \<noteq> None \<and> field hdmi ''g'' \<noteq> None \<and> field hdmi ''b'' \<noteq> None \<and>
     i = Inst ''sys_top'' (sys_top_items hdmi_i2c hdmi_i2s hdmi sdram sdcard hps_spi hps_control
           sdram_clock btn_osd btn_reset)"
  using assms unfolding sys_top_def Instance_def
  apply (clarsimp simp: inversion len_leds)
  apply (simp add: sys_top_items_def pin_field)
  done

lemma upt8: "[0..<8] = [0, 1, 2, 3, 4, 5, 6, 7]"
  by code_simp

lemma lookup_Some:
  "lookup rs n num = Some r \<Longrightarrow>
     r \<in> set rs \<and> (\<exists>i cs. r = Resource n i cs \<and> (num = None \<or> num = Some i))"
  by (induction rs n num rule: lookup.induct) (auto split: if_splits)

lemma request_within:
  assumes "request n num q = (Inr obj, q')" and "set (available q) \<subseteq> set (available p)"
  shows "set (available q') \<subseteq> set (available p) \<and> provides p n num obj"
proof -
  from assms(1) obtain r where l: "lookup (available q) n num = Some r"
    and np: "new_pads r = Inr obj"
    and q': "q' = q\<lparr>available := remove1 r (available q), matched := matched q @ [(r, obj)]\<rparr>"
    by (auto simp: request_def split: option.splits sum.splits)
  from lookup_Some [OF l] obtain i cs where r: "r = Resource n i cs"
    and num: "num = None \<or> num = Some i" and mem: "r \<in> set (available q)" by blast
  have "set (available q') \<subseteq> set (available q)"
    unfolding q' using set_remove1_subset [of r "available q"] by simp
  with assms(2) have sub: "set (available q') \<subseteq> set (available p)" by blast
  from mem assms(2) have "Resource n i cs \<in> set (available p)" unfolding r by blast
  with num np have "provides p n num obj" unfolding provides_def r by blast
  with sub show ?thesis by simp
qed

lemma new_pads_Wire:
  "new_pads (Resource n i cs) = Inr (Wire r j w) \<longleftrightarrow> r = n \<and> j = i \<and> n_bits cs = Some w"
proof (cases "n_bits cs")
  case None
  then show ?thesis by (cases "layout cs") auto
next
  case (Some a)
  then show ?thesis by auto
qed

lemma new_pads_Record:
  "new_pads (Resource n i cs) = Inr (Record r j fs) \<Longrightarrow> r = n \<and> j = i"
proof (cases "n_bits cs")
  case None
  assume "new_pads (Resource n i cs) = Inr (Record r j fs)"
  with None show ?thesis by (cases "layout cs") (auto split: if_splits)
next
  case (Some a)
  assume "new_pads (Resource n i cs) = Inr (Record r j fs)"
  with Some show ?thesis by simp
qed

lemma provides_Wire:
  "provides p n num (Wire r i w) \<longleftrightarrow>
     r = n \<and> (num = None \<or> num = Some i) \<and> has_pins p n i w"
  unfolding provides_def has_pins_def new_pads_Wire by blast

lemma provides_Record:
  "provides p n num (Record r i fs) \<Longrightarrow> r = n"
  unfolding provides_def using new_pads_Record by blast

lemma Top_Inr:
  assumes "Top p = (Inr d, p')"
  shows "\<exists>ddram hdmi_i2c hdmi_i2s hdmi sdram sdcard hps_spi hps_control
            w0 w1 w2 w3 w4 w5 w6 w7 ci cw sdram_clock btn_osd btn_reset.
     is_pad sdram_clock \<and> is_pad btn_osd \<and> is_pad btn_reset \<and>
     provides p ''hdmi'' None hdmi \<and>
     has_pins p ''user_led'' 0 w0 \<and> has_pins p ''user_led'' 1 w1 \<and>
     has_pins p ''user_led'' 2 w2 \<and> has_pins p ''user_led'' 3 w3 \<and>
     has_pins p ''user_led'' 4 w4 \<and> has_pins p ''user_led'' 5 w5 \<and>
     has_pins p ''user_led'' 6 w6 \<and> has_pins p ''user_led'' 7 w7 \<and>
     field hdmi ''r'' \<noteq> None \<and> field hdmi ''g'' \<noteq> None \<and> field hdmi ''b'' \<noteq> None \<and>
     d = \<lparr>comb = [
            Assign (Cat [V (Pad ''user_led'' 0 [] w0), V (Pad ''user_led'' 1 [] w1),
                         V (Pad ''user_led'' 2 [] w2), V (Pad ''user_led'' 3 [] w3),
                         V (Pad ''user_led'' 4 [] w4), V (Pad ''user_led'' 5 [] w5),
                         V (Pad ''user_led'' 6 [] w6), V (Pad ''user_led'' 7 [] w7)])
              (Inv leds),
            Assign clk50 (V (Pad ''clk50'' ci [] cw)),
            Assign avalon_burstbegin (And avalon_write avalon_read),
            Assign avalon_waitrequest (Inv avalon_ready),
            Assign (V (ClockSignal ''avalon'')) avalon_clock,
            Assign (V (ClockSignal ''sys'')) (V (ClockSignal ''avalon''))],
          specials = [
            Inst ''ddr3'' (ddr3_items ddram),
            Inst ''sys_top'' (sys_top_items hdmi_i2c hdmi_i2s hdmi sdram sdcard hps_spi
              hps_control sdram_clock btn_osd btn_reset)],
          clock_domains = [''sys'', ''avalon''],
          debug = Some False,
          soc = Some (SoCCore sys_clk_freq ''LiteX SoC on MiSTeX / Terasic DECA cape'' soc_kwargs),
          submodules = [],
          wb_masters = []\<rparr>"
proof -
  define P where "P = (\<lambda>d. \<exists>ddram hdmi_i2c hdmi_i2s hdmi sdram sdcard hps_spi hps_control
            w0 w1 w2 w3 w4 w5 w6 w7 ci cw sdram_clock btn_osd btn_reset.
     is_pad sdram_clock \<and> is_pad btn_osd \<and> is_pad btn_reset \<and>
     provides p ''hdmi'' None hdmi \<and>
     has_pins p ''user_led'' 0 w0 \<and> has_pins p ''user_led'' 1 w1 \<and>
     has_pins p ''user_led'' 2 w2 \<and> has_pins p ''user_led'' 3 w3 \<and>
     has_pins p ''user_led'' 4 w4 \<and> has_pins p ''user_led'' 5 w5 \<and>
     has_pins p ''user_led'' 6 w6 \<and> has_pins p ''user_led'' 7 w7 \<and>
     field hdmi ''r'' \<noteq> None \<and> field hdmi ''g'' \<noteq> None \<and> field hdmi ''b'' \<noteq> None \<and>
     d = \<lparr>comb = [
            Assign (Cat [V (Pad ''user_led'' 0 [] w0), V (Pad ''user_led'' 1 [] w1),
                         V (Pad ''user_led'' 2 [] w2), V (Pad ''user_led'' 3 [] w3),
                         V (Pad ''user_led'' 4 [] w4), V (Pad ''user_led'' 5 [] w5),
                         V (Pad ''user_led'' 6 [] w6), V (Pad ''user_led'' 7 [] w7)])
              (Inv leds),
            Assign clk50 (V (Pad ''clk50'' ci [] cw)),
            Assign avalon_burstbegin (And avalon_write avalon_read),
            Assign avalon_waitrequest (Inv avalon_ready),
            Assign (V (ClockSignal ''avalon'')) avalon_clock,
            Assign (V (ClockSignal ''sys'')) (V (ClockSignal ''avalon''))],
          specials = [
            Inst ''ddr3'' (ddr3_items ddram),
            Inst ''sys_top'' (sys_top_items hdmi_i2c hdmi_i2s hdmi sdram sdcard hps_spi
              hps_control sdram_clock btn_osd btn_reset)],
          clock_domains = [''sys'', ''avalon''],
          debug = Some False,
          soc = Some (SoCCore sys_clk_freq ''LiteX SoC on MiSTeX / Terasic DECA cape'' soc_kwargs),
          submodules = [],
          wb_masters = []\<rparr>)"
  from assms have "P d"
    unfolding Top_def
    apply (clarsimp simp: bnd_Inr ret_Inr raise_Inr wrap_Inr collect_Cons_Inr collect_Nil_Inr
        upt8 new_top_def)
    apply (drule ddr3_Inr)
    apply (drule sys_top_Inr)
    apply (insert subset_refl [of "set (available p)"])
    apply ((drule (1) request_within, clarify)+)
    apply (clarsimp simp: provides_Wire)
    apply (unfold P_def)
    apply (fold One_nat_def)
    apply (rule exI)+
    apply (rule conjI[rotated])+
                   apply (rule refl)
                  apply (assumption | simp)+
    done
  then show ?thesis unfolding P_def .
qed

section \<open>Values fit their width\<close>

lemma bits_for_bound: "n < 2 ^ bits_for n"
proof (induction n rule: bits_for.induct)
  case (1 n)
  show ?case
  proof (cases "n < 2")
    case True
    then show ?thesis by (subst bits_for.simps) simp
  next
    case False
    with 1 have "n div 2 < 2 ^ bits_for (n div 2)" by simp
    then have "n < 2 * 2 ^ bits_for (n div 2)" by linarith
    with False show ?thesis by (subst bits_for.simps) simp
  qed
qed

lemma cat_val_bound:
  "list_all (\<lambda>(w, v). v < 2 ^ w) xs \<Longrightarrow> cat_val xs < 2 ^ sum_list (map fst xs)"
proof (induction xs)
  case Nil
  then show ?case by simp
next
  case (Cons a xs)
  obtain w v where a: "a = (w, v)" by (cases a)
  from Cons.prems have v: "v < 2 ^ w" and r: "list_all (\<lambda>(w, v). v < 2 ^ w) xs"
    by (simp_all add: a)
  from Cons.IH [OF r] have c: "cat_val xs + 1 \<le> 2 ^ sum_list (map fst xs)" by simp
  have "v + 2 ^ w * cat_val xs < 2 ^ w + 2 ^ w * cat_val xs" using v by simp
  also have "\<dots> = 2 ^ w * (cat_val xs + 1)" by simp
  also have "\<dots> \<le> 2 ^ w * 2 ^ sum_list (map fst xs)"
    using c by (rule mult_le_mono2)
  finally show ?case by (simp add: a power_add)
qed

lemma nat_and_le: "(m::nat) AND n \<le> m"
proof -
  have "int (m AND n) \<le> int m" by (simp add: of_nat_and_eq)
  then show ?thesis by (simp only: of_nat_le_iff)
qed

lemma val_bound: "val \<sigma> e < 2 ^ len e"
proof (induction e)
  case (V s)
  then show ?case by simp
next
  case (Constant n)
  then show ?case by (simp add: bits_for_bound)
next
  case (Inv e)
  have "(0::nat) < 2 ^ len e" by simp
  then show ?case by (simp del: zero_less_power)
next
  case (And a b)
  have "val \<sigma> a AND val \<sigma> b \<le> val \<sigma> a" by (rule nat_and_le)
  also have "\<dots> < 2 ^ len a" by (rule And.IH)
  also have "\<dots> \<le> 2 ^ max (len a) (len b)" by (simp add: power_increasing)
  finally show ?case by simp
next
  case (Cat es)
  have "list_all (\<lambda>(w, v). v < 2 ^ w) (map (\<lambda>e. (len e, val \<sigma> e)) es)"
    using Cat.IH by (simp add: list_all_iff)
  from cat_val_bound [OF this] show ?case by (simp add: comp_def)
next
  case (Slice e lo hi)
  then show ?case by simp
qed

section \<open>Runs that succeed\<close>

text \<open>
  When the records that were requested have the subsignals that the instances read,
  the construction of the instances returns, and on the example board the whole design
  is built.
\<close>

lemma bnd_ret: "bnd (ret x) f = f x"
  by (rule ext) (simp add: bnd_def ret_def)

lemma bnd_assoc: "bnd (bnd m g) f = bnd m (\<lambda>x. bnd (g x) f)"
  by (rule ext) (simp add: bnd_def split: prod.splits sum.splits)

lemma attr_field: "field obj f = Some e \<Longrightarrow> attr obj f = ret e"
  by (simp add: attr_def)

lemma getitem_ok: "i < len e \<Longrightarrow> getitem e i = ret (Slice e i (Suc i))"
  by (simp add: getitem_def)

lemma collect_ret: "collect (ret x # ms) = bnd (collect ms) (\<lambda>xs. ret (x # xs))"
  by (simp add: bnd_ret)

lemma ddr3_ok:
  assumes "has_fields ddram [''a'', ''ba'', ''clk_p'', ''clk_n'', ''cke'', ''cs_n'', ''dm'',
     ''ras_n'', ''cas_n'', ''we_n'', ''reset_n'', ''dq'', ''dqs_p'', ''dqs_n'', ''odt'']"
  shows "ddr3 ddram = ret (Inst ''ddr3'' (ddr3_items ddram))"
  using assms
  apply (clarsimp simp: has_fields_def)
  apply (simp add: ddr3_def Instance_def attr_field pin_field getitem_ok len_leds bnd_ret
      item_of_def ddr3_items_def)
  done


lemma sys_top_ok:
  assumes "has_fields hdmi_i2c [''scl'', ''sda'']"
    and "has_fields hdmi_i2s [''mclk'', ''sclk'', ''lrclk'', ''i2s'']"
    and "has_fields hdmi [''r'', ''g'', ''b'', ''clk'', ''de'', ''hsync'', ''vsync'', ''int'']"
    and "has_fields sdram [''a'', ''dq'', ''we_n'', ''cas_n'', ''ras_n'', ''cs_n'', ''ba'']"
    and "has_fields sdcard [''sel'', ''data'', ''clk'', ''cmd'']"
    and "has_fields hps_spi [''mosi'', ''miso'', ''clk'', ''cs_n'']"
    and "has_fields hps_control [''fpga_enable'', ''osd_enable'', ''io_enable'', ''core_reset'']"
    and "0 < len (pin sdcard ''data'')"
  shows "sys_top hdmi_i2c hdmi_i2s hdmi sdram sdcard hps_spi hps_control =
     bnd (request ''sdram_clock'' None) (\<lambda>x. bnd (wrap x) (\<lambda>sdram_clock.
     bnd (request ''user_btn'' (Some 0)) (\<lambda>x. bnd (wrap x) (\<lambda>btn_osd.
     bnd (request ''user_btn'' (Some 1)) (\<lambda>x. bnd (wrap x) (\<lambda>btn_reset.
     ret (Inst ''sys_top'' (sys_top_items hdmi_i2c hdmi_i2s hdmi sdram sdcard hps_spi
       hps_control sdram_clock btn_osd btn_reset))))))))"
  using assms
  apply (clarsimp simp: has_fields_def)
  apply (simp add: sys_top_def Instance_def attr_field pin_field getitem_ok len_leds bnd_ret
      bnd_assoc item_of_def sys_top_items_def eval_nat_numeral)
  done

lemma bnd_weak_cong: "m = m' \<Longrightarrow> s = s' \<Longrightarrow> bnd m f s = bnd m' f s'"
  by simp

lemma Top_example: "fst (Top example_platform) = Inr example_top"
  unfolding Top_def
  apply (simp add: bnd_def request_def ret_def wrap_def upt8 example_platform_def example_board_def
      extension_def identifiers_def new_top_def ddr3_ok sys_top_ok has_fields_def pin_def
      example_top_def example_ddram_def example_hdmi_def example_hdmi_i2c_def
      example_hdmi_i2s_def example_sdcard_def example_sdram_def example_hps_spi_def
      example_hps_control_def
      cong: bnd_weak_cong prod.case_cong_weak sum.case_cong_weak)
  apply (simp add: eval_nat_numeral)
  done

section \<open>Every design that is built\<close>

lemmas signal_defs = leds_def clk50_def avalon_clock_def avalon_address_def
  avalon_byteenable_def avalon_read_def avalon_readdata_def avalon_burstcount_def
  avalon_write_def avalon_writedata_def avalon_ready_def avalon_readdatavalid_def
  avalon_burstbegin_def avalon_waitrequest_def afi_half_clk_def afi_reset_export_n_def
  afi_reset_n_def

lemma Top_example_run: "Top example_platform = (Inr example_top, snd (Top example_platform))"
  using Top_example by (metis prod.collapse)

lemma satisfies_example: "satisfies example_valuation example_top"
  by (simp add: satisfies_def example_top_def signal_defs upt8)

lemma Top_specials:
  assumes "Top p = (Inr d, p')"
  shows "\<exists>ddram hdmi_i2c hdmi_i2s hdmi sdram sdcard hps_spi hps_control
            sdram_clock btn_osd btn_reset.
     is_pad sdram_clock \<and> is_pad btn_osd \<and> is_pad btn_reset \<and>
     specials d = [
       Inst ''ddr3'' (ddr3_items ddram),
       Inst ''sys_top'' (sys_top_items hdmi_i2c hdmi_i2s hdmi sdram sdcard hps_spi
         hps_control sdram_clock btn_osd btn_reset)]"
  using Top_Inr [OF assms] by (elim exE conjE) (simp, blast)

lemma Top_comb:
  assumes "Top p = (Inr d, p')"
  shows "\<exists>user_led clk50_pad.
     length user_led = 8 \<and> list_all is_pad user_led \<and> is_pad clk50_pad \<and>
     comb d = [
       Assign (Cat user_led) (Inv leds),
       Assign clk50 clk50_pad,
       Assign avalon_burstbegin (And avalon_write avalon_read),
       Assign avalon_waitrequest (Inv avalon_ready),
       Assign (V (ClockSignal ''avalon'')) avalon_clock,
       Assign (V (ClockSignal ''sys'')) (V (ClockSignal ''avalon''))]"
  using Top_Inr [OF assms] by (elim exE conjE) simp

lemma Top_flags:
  assumes "Top p = (Inr d, p')"
  shows "debug d = Some False \<and> submodules d = [] \<and> wb_masters d = []
     \<and> clock_domains d = [''sys'', ''avalon'']"
  using Top_Inr [OF assms] by (elim exE conjE) simp

lemma port_ddr3:
  "specials d = [Inst ''ddr3'' a, Inst ''sys_top'' b] \<Longrightarrow>
     port d ''ddr3'' n = filter (\<lambda>it. item_name it = n) a"
  by (simp add: port_def bindings_def)

lemma port_sys_top:
  "specials d = [Inst ''ddr3'' a, Inst ''sys_top'' b] \<Longrightarrow>
     port d ''sys_top'' n = filter (\<lambda>it. item_name it = n) b"
  by (simp add: port_def bindings_def)

lemma Top_ports:
  assumes "Top p = (Inr d, p')"
  shows "port d ''ddr3'' ''avl_burstbegin'' = [Input ''avl_burstbegin'' avalon_burstbegin]"
    and "port d ''ddr3'' ''avl_ready'' = [Output ''avl_ready'' avalon_ready]"
    and "port d ''ddr3'' ''afi_clk'' = [Output ''afi_clk'' avalon_clock]"
    and "port d ''ddr3'' ''avl_addr'' = [Input ''avl_addr'' avalon_address]"
    and "port d ''ddr3'' ''avl_be'' = [Input ''avl_be'' avalon_byteenable]"
    and "port d ''ddr3'' ''avl_read_req'' = [Input ''avl_read_req'' avalon_read]"
    and "port d ''ddr3'' ''avl_rdata'' = [Output ''avl_rdata'' avalon_readdata]"
    and "port d ''ddr3'' ''avl_size'' = [Input ''avl_size'' avalon_burstcount]"
    and "port d ''ddr3'' ''avl_write_req'' = [Input ''avl_write_req'' avalon_write]"
    and "port d ''ddr3'' ''avl_wdata'' = [Input ''avl_wdata'' avalon_writedata]"
    and "port d ''ddr3'' ''avl_rdata_valid'' = [Output ''avl_rdata_valid'' avalon_readdatavalid]"
    and "port d ''ddr3'' ''pll_locked'' = [Output ''pll_locked'' (Slice leds 4 5)]"
    and "port d ''ddr3'' ''local_init_done'' = [Output ''local_init_done'' (Slice leds 5 6)]"
    and "port d ''ddr3'' ''local_cal_success'' = [Output ''local_cal_success'' (Slice leds 6 7)]"
    and "port d ''ddr3'' ''local_cal_fail'' = [Output ''local_cal_fail'' (Slice leds 7 8)]"
    and "port d ''sys_top'' ''ddr3_address_o'' = [Output ''ddr3_address_o'' avalon_address]"
    and "port d ''sys_top'' ''ddr3_byteenable_o'' = [Output ''ddr3_byteenable_o'' avalon_byteenable]"
    and "port d ''sys_top'' ''ddr3_read_o'' = [Output ''ddr3_read_o'' avalon_read]"
    and "port d ''sys_top'' ''ddr3_readdata_i'' = [Input ''ddr3_readdata_i'' avalon_readdata]"
    and "port d ''sys_top'' ''ddr3_burstcount_o'' = [Output ''ddr3_burstcount_o'' avalon_burstcount]"
    and "port d ''sys_top'' ''ddr3_write_o'' = [Output ''ddr3_write_o'' avalon_write]"
    and "port d ''sys_top'' ''ddr3_writedata_o'' = [Output ''ddr3_writedata_o'' avalon_writedata]"
    and "port d ''sys_top'' ''ddr3_waitrequest_i'' = [Input ''ddr3_waitrequest_i'' avalon_waitrequest]"
    and "port d ''sys_top'' ''ddr3_readdatavalid_i'' = [Input ''ddr3_readdatavalid_i'' avalon_readdatavalid]"
    and "port d ''sys_top'' ''ddr3_clk_i'' = [Input ''ddr3_clk_i'' avalon_clock]"
    and "port d ''sys_top'' ''LED_POWER'' = [Output ''LED_POWER'' (Slice leds 0 1)]"
    and "port d ''sys_top'' ''LED_HDD'' = [Output ''LED_HDD'' (Slice leds 1 2)]"
    and "port d ''sys_top'' ''LED_USER'' = [Output ''LED_USER'' (Slice leds 2 3)]"
    and "port d ''sys_top'' ''AW'' = [Parameter ''AW'' (Constant AW)]"
    and "port d ''sys_top'' ''DW'' = [Parameter ''DW'' (Constant DW)]"
proof -
  from Top_specials [OF assms] obtain ddram a b c e f g h i j k where
    sp: "specials d = [Inst ''ddr3'' (ddr3_items ddram),
           Inst ''sys_top'' (sys_top_items a b c e f g h i j k)]"
    by blast
  show "port d ''ddr3'' ''avl_burstbegin'' = [Input ''avl_burstbegin'' avalon_burstbegin]"
    and "port d ''ddr3'' ''avl_ready'' = [Output ''avl_ready'' avalon_ready]"
    and "port d ''ddr3'' ''afi_clk'' = [Output ''afi_clk'' avalon_clock]"
    and "port d ''ddr3'' ''avl_addr'' = [Input ''avl_addr'' avalon_address]"
    and "port d ''ddr3'' ''avl_be'' = [Input ''avl_be'' avalon_byteenable]"
    and "port d ''ddr3'' ''avl_read_req'' = [Input ''avl_read_req'' avalon_read]"
    and "port d ''ddr3'' ''avl_rdata'' = [Output ''avl_rdata'' avalon_readdata]"
    and "port d ''ddr3'' ''avl_size'' = [Input ''avl_size'' avalon_burstcount]"
    and "port d ''ddr3'' ''avl_write_req'' = [Input ''avl_write_req'' avalon_write]"
    and "port d ''ddr3'' ''avl_wdata'' = [Input ''avl_wdata'' avalon_writedata]"
    and "port d ''ddr3'' ''avl_rdata_valid'' = [Output ''avl_rdata_valid'' avalon_readdatavalid]"
    and "port d ''ddr3'' ''pll_locked'' = [Output ''pll_locked'' (Slice leds 4 5)]"
    and "port d ''ddr3'' ''local_init_done'' = [Output ''local_init_done'' (Slice leds 5 6)]"
    and "port d ''ddr3'' ''local_cal_success'' = [Output ''local_cal_success'' (Slice leds 6 7)]"
    and "port d ''ddr3'' ''local_cal_fail'' = [Output ''local_cal_fail'' (Slice leds 7 8)]"
    by (simp_all add: port_ddr3 [OF sp] ddr3_items_def)
  show "port d ''sys_top'' ''ddr3_address_o'' = [Output ''ddr3_address_o'' avalon_address]"
    and "port d ''sys_top'' ''ddr3_byteenable_o'' = [Output ''ddr3_byteenable_o'' avalon_byteenable]"
    and "port d ''sys_top'' ''ddr3_read_o'' = [Output ''ddr3_read_o'' avalon_read]"
    and "port d ''sys_top'' ''ddr3_readdata_i'' = [Input ''ddr3_readdata_i'' avalon_readdata]"
    and "port d ''sys_top'' ''ddr3_burstcount_o'' = [Output ''ddr3_burstcount_o'' avalon_burstcount]"
    and "port d ''sys_top'' ''ddr3_write_o'' = [Output ''ddr3_write_o'' avalon_write]"
    and "port d ''sys_top'' ''ddr3_writedata_o'' = [Output ''ddr3_writedata_o'' avalon_writedata]"
    and "port d ''sys_top'' ''ddr3_waitrequest_i'' = [Input ''ddr3_waitrequest_i'' avalon_waitrequest]"
    and "port d ''sys_top'' ''ddr3_readdatavalid_i'' = [Input ''ddr3_readdatavalid_i'' avalon_readdatavalid]"
    and "port d ''sys_top'' ''ddr3_clk_i'' = [Input ''ddr3_clk_i'' avalon_clock]"
    and "port d ''sys_top'' ''LED_POWER'' = [Output ''LED_POWER'' (Slice leds 0 1)]"
    and "port d ''sys_top'' ''LED_HDD'' = [Output ''LED_HDD'' (Slice leds 1 2)]"
    and "port d ''sys_top'' ''LED_USER'' = [Output ''LED_USER'' (Slice leds 2 3)]"
    and "port d ''sys_top'' ''AW'' = [Parameter ''AW'' (Constant AW)]"
    and "port d ''sys_top'' ''DW'' = [Parameter ''DW'' (Constant DW)]"
    by (simp_all add: port_sys_top [OF sp] sys_top_items_def)
qed

lemma Top_holds:
  assumes "Top p = (Inr d, p')" and "satisfies \<sigma> d"
  shows "holds \<sigma> (Assign avalon_burstbegin (And avalon_write avalon_read))"
    and "holds \<sigma> (Assign avalon_waitrequest (Inv avalon_ready))"
    and "holds \<sigma> (Assign (V (ClockSignal ''avalon'')) avalon_clock)"
    and "holds \<sigma> (Assign (V (ClockSignal ''sys'')) (V (ClockSignal ''avalon'')))"
  using Top_comb [OF assms(1)] assms(2) by (auto simp: satisfies_def)

lemma val_bit: "len e = 1 \<Longrightarrow> val \<sigma> e < 2"
  using val_bound [of \<sigma> e] by simp

section \<open>The bus bridge\<close>

text \<open>
  Claim C1. In every design that \<^verbatim>\<open>Top.__init__\<close> builds, the port
  \<^verbatim>\<open>avl_burstbegin\<close> of the controller is bound to the signal
  \<^verbatim>\<open>avalon_burstbegin\<close>, the ports \<^verbatim>\<open>ddr3_write_o\<close> and
  \<^verbatim>\<open>ddr3_read_o\<close> of the top-level module drive
  \<^verbatim>\<open>avalon_write\<close> and \<^verbatim>\<open>avalon_read\<close>, and in every
  valuation that satisfies the combinatorial assignments of the design the burstbegin
  signal is the bitwise AND of the write strobe and the read strobe.
\<close>

theorem burstbegin_is_write_and_read:
  assumes "Top p = (Inr d, p')" and "satisfies \<sigma> d"
  shows "port d ''ddr3'' ''avl_burstbegin'' = [Input ''avl_burstbegin'' avalon_burstbegin]
       \<and> port d ''sys_top'' ''ddr3_write_o'' = [Output ''ddr3_write_o'' avalon_write]
       \<and> port d ''sys_top'' ''ddr3_read_o'' = [Output ''ddr3_read_o'' avalon_read]
       \<and> val \<sigma> avalon_burstbegin = (val \<sigma> avalon_write AND val \<sigma> avalon_read)"
proof -
  from Top_holds(1) [OF assms]
  have eq: "val \<sigma> avalon_burstbegin = val \<sigma> (And avalon_write avalon_read) mod 2"
    by (simp add: avalon_burstbegin_def)
  have "val \<sigma> (And avalon_write avalon_read) < 2"
    by (rule val_bit) (simp add: avalon_write_def avalon_read_def)
  with eq have "val \<sigma> avalon_burstbegin = (val \<sigma> avalon_write AND val \<sigma> avalon_read)"
    by simp
  then show ?thesis
    by (simp add: Top_ports [OF assms(1)])
qed

theorem burstbegin_is_write_and_read_witness:
  "fst (Top example_platform) = Inr example_top
   \<and> satisfies example_valuation example_top
   \<and> port example_top ''ddr3'' ''avl_burstbegin'' = [Input ''avl_burstbegin'' avalon_burstbegin]
   \<and> val example_valuation avalon_write = 1
   \<and> val example_valuation avalon_read = 1
   \<and> val example_valuation avalon_burstbegin = (val example_valuation avalon_write AND val example_valuation avalon_read)"
  using burstbegin_is_write_and_read [OF Top_example_run satisfies_example] Top_example
    satisfies_example
  by (simp add: avalon_write_def avalon_read_def)

text \<open>
  Claim C2. In every design that is built, the output \<^verbatim>\<open>afi_clk\<close> of the
  controller drives \<^verbatim>\<open>avalon_clock\<close>, the design declares the clock
  domains \<^verbatim>\<open>sys\<close> and \<^verbatim>\<open>avalon\<close>, and in every
  valuation that satisfies the combinatorial assignments the clock of the domain
  \<^verbatim>\<open>sys\<close> equals the clock that the controller generates.
\<close>

theorem sys_clock_is_afi_clk:
  assumes "Top p = (Inr d, p')" and "satisfies \<sigma> d"
  shows "port d ''ddr3'' ''afi_clk'' = [Output ''afi_clk'' avalon_clock]
       \<and> clock_domains d = [''sys'', ''avalon'']
       \<and> val \<sigma> (V (ClockSignal ''avalon'')) = val \<sigma> avalon_clock
       \<and> val \<sigma> (V (ClockSignal ''sys'')) = val \<sigma> avalon_clock"
proof -
  have c: "val \<sigma> avalon_clock < 2"
    by (rule val_bit) (simp add: avalon_clock_def)
  from Top_holds(3) [OF assms] c
  have a: "val \<sigma> (V (ClockSignal ''avalon'')) = val \<sigma> avalon_clock"
    by simp
  from Top_holds(4) [OF assms]
  have "val \<sigma> (V (ClockSignal ''sys'')) = \<sigma> (ClockSignal ''avalon'') mod 2"
    by simp
  with a have "val \<sigma> (V (ClockSignal ''sys'')) = val \<sigma> avalon_clock"
    by simp
  with a show ?thesis
    using Top_flags [OF assms(1)] by (simp add: Top_ports [OF assms(1)])
qed

theorem sys_clock_is_afi_clk_witness:
  "fst (Top example_platform) = Inr example_top
   \<and> satisfies example_valuation example_top
   \<and> port example_top ''ddr3'' ''afi_clk'' = [Output ''afi_clk'' avalon_clock]
   \<and> val example_valuation avalon_clock = 1
   \<and> val example_valuation (V (ClockSignal ''sys'')) = val example_valuation avalon_clock"
  using sys_clock_is_afi_clk [OF Top_example_run satisfies_example] Top_example
    satisfies_example
  by (simp add: avalon_clock_def)

text \<open>
  Claim C3. In every design that is built, the input
  \<^verbatim>\<open>ddr3_waitrequest_i\<close> of the top-level module reads
  \<^verbatim>\<open>avalon_waitrequest\<close>, the output \<^verbatim>\<open>avl_ready\<close> of the
  controller drives \<^verbatim>\<open>avalon_ready\<close>, and in every valuation that
  satisfies the combinatorial assignments the one-bit waitrequest is the negation of the
  one-bit ready.
\<close>

theorem waitrequest_is_not_ready:
  assumes "Top p = (Inr d, p')" and "satisfies \<sigma> d"
  shows "port d ''sys_top'' ''ddr3_waitrequest_i''
           = [Input ''ddr3_waitrequest_i'' avalon_waitrequest]
       \<and> port d ''ddr3'' ''avl_ready'' = [Output ''avl_ready'' avalon_ready]
       \<and> val \<sigma> avalon_ready < 2
       \<and> val \<sigma> avalon_waitrequest = 1 - val \<sigma> avalon_ready"
proof -
  have r: "val \<sigma> avalon_ready < 2"
    by (rule val_bit) (simp add: avalon_ready_def)
  from Top_holds(2) [OF assms]
  have "val \<sigma> avalon_waitrequest = (1 - val \<sigma> avalon_ready) mod 2"
    by (simp add: avalon_waitrequest_def avalon_ready_def)
  then have "val \<sigma> avalon_waitrequest = 1 - val \<sigma> avalon_ready"
    by simp
  with r show ?thesis
    by (simp add: Top_ports [OF assms(1)])
qed

theorem waitrequest_is_not_ready_witness:
  "fst (Top example_platform) = Inr example_top
   \<and> satisfies example_valuation example_top
   \<and> val example_valuation avalon_ready = 0
   \<and> val example_valuation avalon_waitrequest = 1
   \<and> val example_valuation avalon_waitrequest = 1 - val example_valuation avalon_ready"
  using waitrequest_is_not_ready [OF Top_example_run satisfies_example] Top_example
    satisfies_example
  by (simp add: avalon_ready_def avalon_waitrequest_def)

lemma pin_cases: "(\<exists>r i w. pin obj f = V (Pad r i f w)) \<or> pin obj f = Constant 0"
  by (cases obj) (auto simp: pin_def split: option.splits)

lemma pin_not_signal [simp]: "pin obj f \<noteq> V (Signal n w)"
  using pin_cases [of obj f] by auto

lemma is_pad_not_signal: "is_pad e \<Longrightarrow> e \<noteq> V (Signal n w)"
  by auto

lemma uses_ddr3:
  "specials d = [Inst ''ddr3'' a, Inst ''sys_top'' b] \<Longrightarrow>
     uses d ''ddr3'' e = filter (\<lambda>it. item_expr it = e) a"
  by (simp add: uses_def)

lemma uses_sys_top:
  "specials d = [Inst ''ddr3'' a, Inst ''sys_top'' b] \<Longrightarrow>
     uses d ''sys_top'' e = filter (\<lambda>it. item_expr it = e) b"
  by (simp add: uses_def)

lemma Top_uses:
  assumes "Top p = (Inr d, p')"
  shows "uses d ''ddr3'' avalon_address = [Input ''avl_addr'' avalon_address]"
    and "uses d ''ddr3'' avalon_byteenable = [Input ''avl_be'' avalon_byteenable]"
    and "uses d ''ddr3'' avalon_read = [Input ''avl_read_req'' avalon_read]"
    and "uses d ''ddr3'' avalon_readdata = [Output ''avl_rdata'' avalon_readdata]"
    and "uses d ''ddr3'' avalon_burstcount = [Input ''avl_size'' avalon_burstcount]"
    and "uses d ''ddr3'' avalon_write = [Input ''avl_write_req'' avalon_write]"
    and "uses d ''ddr3'' avalon_writedata = [Input ''avl_wdata'' avalon_writedata]"
    and "uses d ''ddr3'' avalon_readdatavalid = [Output ''avl_rdata_valid'' avalon_readdatavalid]"
    and "uses d ''sys_top'' avalon_address = [Output ''ddr3_address_o'' avalon_address]"
    and "uses d ''sys_top'' avalon_byteenable = [Output ''ddr3_byteenable_o'' avalon_byteenable]"
    and "uses d ''sys_top'' avalon_read = [Output ''ddr3_read_o'' avalon_read]"
    and "uses d ''sys_top'' avalon_readdata = [Input ''ddr3_readdata_i'' avalon_readdata]"
    and "uses d ''sys_top'' avalon_burstcount = [Output ''ddr3_burstcount_o'' avalon_burstcount]"
    and "uses d ''sys_top'' avalon_write = [Output ''ddr3_write_o'' avalon_write]"
    and "uses d ''sys_top'' avalon_writedata = [Output ''ddr3_writedata_o'' avalon_writedata]"
    and "uses d ''sys_top'' avalon_readdatavalid
           = [Input ''ddr3_readdatavalid_i'' avalon_readdatavalid]"
proof -
  from Top_specials [OF assms] obtain ddram a b c e f g h i j k where
    pads: "is_pad i" "is_pad j" "is_pad k"
    and sp: "specials d = [Inst ''ddr3'' (ddr3_items ddram),
           Inst ''sys_top'' (sys_top_items a b c e f g h i j k)]"
    by blast
  note ne = is_pad_not_signal [OF pads(1)] is_pad_not_signal [OF pads(2)]
    is_pad_not_signal [OF pads(3)]
  show "uses d ''ddr3'' avalon_address = [Input ''avl_addr'' avalon_address]"
    and "uses d ''ddr3'' avalon_byteenable = [Input ''avl_be'' avalon_byteenable]"
    and "uses d ''ddr3'' avalon_read = [Input ''avl_read_req'' avalon_read]"
    and "uses d ''ddr3'' avalon_readdata = [Output ''avl_rdata'' avalon_readdata]"
    and "uses d ''ddr3'' avalon_burstcount = [Input ''avl_size'' avalon_burstcount]"
    and "uses d ''ddr3'' avalon_write = [Input ''avl_write_req'' avalon_write]"
    and "uses d ''ddr3'' avalon_writedata = [Input ''avl_wdata'' avalon_writedata]"
    and "uses d ''ddr3'' avalon_readdatavalid = [Output ''avl_rdata_valid'' avalon_readdatavalid]"
    by (simp_all add: uses_ddr3 [OF sp] ddr3_items_def signal_defs)
  show "uses d ''sys_top'' avalon_address = [Output ''ddr3_address_o'' avalon_address]"
    and "uses d ''sys_top'' avalon_byteenable = [Output ''ddr3_byteenable_o'' avalon_byteenable]"
    and "uses d ''sys_top'' avalon_read = [Output ''ddr3_read_o'' avalon_read]"
    and "uses d ''sys_top'' avalon_readdata = [Input ''ddr3_readdata_i'' avalon_readdata]"
    and "uses d ''sys_top'' avalon_burstcount = [Output ''ddr3_burstcount_o'' avalon_burstcount]"
    and "uses d ''sys_top'' avalon_write = [Output ''ddr3_write_o'' avalon_write]"
    and "uses d ''sys_top'' avalon_writedata = [Output ''ddr3_writedata_o'' avalon_writedata]"
    and "uses d ''sys_top'' avalon_readdatavalid
           = [Input ''ddr3_readdatavalid_i'' avalon_readdatavalid]"
    by (simp_all add: uses_sys_top [OF sp] sys_top_items_def signal_defs ne)
qed

text \<open>
  Claim C4. In every design that is built, each of the bus signals address, byteenable,
  read, readdata, burstcount, write, writedata and readdatavalid is one shared signal:
  the port of the controller and the port of the top-level module that carry it are
  bound to the same signal, each of the two instances has exactly one item with that
  port name and exactly one item connected to that signal, and the signal has the width
  of the bus (26 bits of address, 64 bits of data, 8 bits of byte enable, 8 bits of burst
  count, one bit for a strobe). The top-level module is given the same widths as its
  parameters \<^verbatim>\<open>AW\<close> and \<^verbatim>\<open>DW\<close>.
\<close>

theorem one_binding_per_bus_signal:
  assumes "Top p = (Inr d, p')"
  shows "(port d ''ddr3'' ''avl_addr'' = [Input ''avl_addr'' avalon_address]
        \<and> port d ''sys_top'' ''ddr3_address_o'' = [Output ''ddr3_address_o'' avalon_address]
        \<and> uses d ''ddr3'' avalon_address = [Input ''avl_addr'' avalon_address]
        \<and> uses d ''sys_top'' avalon_address = [Output ''ddr3_address_o'' avalon_address]
        \<and> len avalon_address = 26)
     \<and> (port d ''ddr3'' ''avl_be'' = [Input ''avl_be'' avalon_byteenable]
        \<and> port d ''sys_top'' ''ddr3_byteenable_o'' = [Output ''ddr3_byteenable_o'' avalon_byteenable]
        \<and> uses d ''ddr3'' avalon_byteenable = [Input ''avl_be'' avalon_byteenable]
        \<and> uses d ''sys_top'' avalon_byteenable = [Output ''ddr3_byteenable_o'' avalon_byteenable]
        \<and> len avalon_byteenable = 8)
     \<and> (port d ''ddr3'' ''avl_read_req'' = [Input ''avl_read_req'' avalon_read]
        \<and> port d ''sys_top'' ''ddr3_read_o'' = [Output ''ddr3_read_o'' avalon_read]
        \<and> uses d ''ddr3'' avalon_read = [Input ''avl_read_req'' avalon_read]
        \<and> uses d ''sys_top'' avalon_read = [Output ''ddr3_read_o'' avalon_read]
        \<and> len avalon_read = 1)
     \<and> (port d ''ddr3'' ''avl_rdata'' = [Output ''avl_rdata'' avalon_readdata]
        \<and> port d ''sys_top'' ''ddr3_readdata_i'' = [Input ''ddr3_readdata_i'' avalon_readdata]
        \<and> uses d ''ddr3'' avalon_readdata = [Output ''avl_rdata'' avalon_readdata]
        \<and> uses d ''sys_top'' avalon_readdata = [Input ''ddr3_readdata_i'' avalon_readdata]
        \<and> len avalon_readdata = 64)
     \<and> (port d ''ddr3'' ''avl_size'' = [Input ''avl_size'' avalon_burstcount]
        \<and> port d ''sys_top'' ''ddr3_burstcount_o'' = [Output ''ddr3_burstcount_o'' avalon_burstcount]
        \<and> uses d ''ddr3'' avalon_burstcount = [Input ''avl_size'' avalon_burstcount]
        \<and> uses d ''sys_top'' avalon_burstcount = [Output ''ddr3_burstcount_o'' avalon_burstcount]
        \<and> len avalon_burstcount = 8)
     \<and> (port d ''ddr3'' ''avl_write_req'' = [Input ''avl_write_req'' avalon_write]
        \<and> port d ''sys_top'' ''ddr3_write_o'' = [Output ''ddr3_write_o'' avalon_write]
        \<and> uses d ''ddr3'' avalon_write = [Input ''avl_write_req'' avalon_write]
        \<and> uses d ''sys_top'' avalon_write = [Output ''ddr3_write_o'' avalon_write]
        \<and> len avalon_write = 1)
     \<and> (port d ''ddr3'' ''avl_wdata'' = [Input ''avl_wdata'' avalon_writedata]
        \<and> port d ''sys_top'' ''ddr3_writedata_o'' = [Output ''ddr3_writedata_o'' avalon_writedata]
        \<and> uses d ''ddr3'' avalon_writedata = [Input ''avl_wdata'' avalon_writedata]
        \<and> uses d ''sys_top'' avalon_writedata = [Output ''ddr3_writedata_o'' avalon_writedata]
        \<and> len avalon_writedata = 64)
     \<and> (port d ''ddr3'' ''avl_rdata_valid'' = [Output ''avl_rdata_valid'' avalon_readdatavalid]
        \<and> port d ''sys_top'' ''ddr3_readdatavalid_i''
             = [Input ''ddr3_readdatavalid_i'' avalon_readdatavalid]
        \<and> uses d ''ddr3'' avalon_readdatavalid = [Output ''avl_rdata_valid'' avalon_readdatavalid]
        \<and> uses d ''sys_top'' avalon_readdatavalid
             = [Input ''ddr3_readdatavalid_i'' avalon_readdatavalid]
        \<and> len avalon_readdatavalid = 1)
     \<and> port d ''sys_top'' ''AW'' = [Parameter ''AW'' (Constant 26)]
     \<and> port d ''sys_top'' ''DW'' = [Parameter ''DW'' (Constant 64)]"
proof -
  have widths: "len avalon_address = 26" "len avalon_byteenable = 8" "len avalon_read = 1"
    "len avalon_readdata = 64" "len avalon_burstcount = 8" "len avalon_write = 1"
    "len avalon_writedata = 64" "len avalon_readdatavalid = 1"
    by (simp_all add: signal_defs AW_def DW_def)
  have params: "Constant AW = Constant 26" "Constant DW = Constant 64"
    by (simp_all add: AW_def DW_def)
  show ?thesis
    by (simp only: Top_ports [OF assms] Top_uses [OF assms] widths params simp_thms)
qed

theorem one_binding_per_bus_signal_witness:
  "fst (Top example_platform) = Inr example_top
   \<and> port example_top ''ddr3'' ''avl_addr'' = [Input ''avl_addr'' avalon_address]
   \<and> port example_top ''sys_top'' ''ddr3_address_o'' = [Output ''ddr3_address_o'' avalon_address]
   \<and> uses example_top ''ddr3'' avalon_address = [Input ''avl_addr'' avalon_address]
   \<and> uses example_top ''sys_top'' avalon_address = [Output ''ddr3_address_o'' avalon_address]
   \<and> len avalon_address = 26"
  using one_binding_per_bus_signal [OF Top_example_run] Top_example by simp

lemma Top_hdmi_pads:
  assumes "Top p = (Inr d, p')"
  shows "\<exists>ddram hdmi_i2c hdmi_i2s hdmi sdram sdcard hps_spi hps_control
            sdram_clock btn_osd btn_reset.
     provides p ''hdmi'' None hdmi \<and>
     field hdmi ''r'' \<noteq> None \<and> field hdmi ''g'' \<noteq> None \<and> field hdmi ''b'' \<noteq> None \<and>
     specials d = [
       Inst ''ddr3'' (ddr3_items ddram),
       Inst ''sys_top'' (sys_top_items hdmi_i2c hdmi_i2s hdmi sdram sdcard hps_spi
         hps_control sdram_clock btn_osd btn_reset)]"
  using Top_Inr [OF assms] by (elim exE conjE) (simp, blast)

lemma Top_hdmi:
  assumes "Top p = (Inr d, p')"
  shows "\<exists>i fs wr wg wb.
     provides p ''hdmi'' None (Record ''hdmi'' i fs) \<and>
     map_of fs ''r'' = Some wr \<and> map_of fs ''g'' = Some wg \<and> map_of fs ''b'' = Some wb \<and>
     port d ''sys_top'' ''HDMI_TX_D'' = [Output ''HDMI_TX_D''
       (Cat [V (Pad ''hdmi'' i ''r'' wr), V (Pad ''hdmi'' i ''g'' wg), V (Pad ''hdmi'' i ''b'' wb)])]"
proof -
  from Top_hdmi_pads [OF assms] obtain ddram a b hdmi e f g h i j k where
    pr: "provides p ''hdmi'' None hdmi"
    and fr: "field hdmi ''r'' \<noteq> None" and fg: "field hdmi ''g'' \<noteq> None"
    and fb: "field hdmi ''b'' \<noteq> None"
    and sp: "specials d = [Inst ''ddr3'' (ddr3_items ddram),
           Inst ''sys_top'' (sys_top_items a b hdmi e f g h i j k)]"
    by blast
  from fr obtain r n fs where h: "hdmi = Record r n fs" by (cases hdmi) auto
  from pr have r: "r = ''hdmi''" unfolding h by (rule provides_Record)
  from fr fg fb obtain wr wg wb where
    w: "map_of fs ''r'' = Some wr" "map_of fs ''g'' = Some wg" "map_of fs ''b'' = Some wb"
    unfolding h by (auto split: option.splits)
  have "port d ''sys_top'' ''HDMI_TX_D'' = [Output ''HDMI_TX_D''
       (Cat [V (Pad ''hdmi'' n ''r'' wr), V (Pad ''hdmi'' n ''g'' wg), V (Pad ''hdmi'' n ''b'' wb)])]"
    by (simp add: port_sys_top [OF sp] sys_top_items_def pin_def h r w)
  with pr w show ?thesis unfolding h r by blast
qed

lemma mod_mult_add: "(a::nat) < m \<Longrightarrow> (a + m * x) mod m = a"
  by simp

lemma div_mult_add: "(a::nat) < m \<Longrightarrow> (a + m * x) div m = x"
  by simp

lemma cat3:
  assumes "a < 2 ^ wa" and "b < 2 ^ wb" and "c < (2::nat) ^ wc"
  shows "(a + 2 ^ wa * (b + 2 ^ wb * c)) mod 2 ^ wa = a"
    and "((a + 2 ^ wa * (b + 2 ^ wb * c)) div 2 ^ wa) mod 2 ^ wb = b"
    and "((a + 2 ^ wa * (b + 2 ^ wb * c)) div 2 ^ (wa + wb)) mod 2 ^ wc = c"
proof -
  show "(a + 2 ^ wa * (b + 2 ^ wb * c)) mod 2 ^ wa = a"
    using assms(1) by simp
  have d1: "(a + 2 ^ wa * (b + 2 ^ wb * c)) div 2 ^ wa = b + 2 ^ wb * c"
    using assms(1) by simp
  show "((a + 2 ^ wa * (b + 2 ^ wb * c)) div 2 ^ wa) mod 2 ^ wb = b"
    unfolding d1 using assms(2) by simp
  have "(a + 2 ^ wa * (b + 2 ^ wb * c)) div 2 ^ (wa + wb)
       = ((a + 2 ^ wa * (b + 2 ^ wb * c)) div 2 ^ wa) div 2 ^ wb"
    by (simp add: power_add div_mult2_eq)
  also have "\<dots> = c" unfolding d1 using assms(2) by simp
  finally show "((a + 2 ^ wa * (b + 2 ^ wb * c)) div 2 ^ (wa + wb)) mod 2 ^ wc = c"
    using assms(3) by simp
qed

section \<open>The video data output\<close>

text \<open>
  Claim C8. In every design that is built, the output \<^verbatim>\<open>HDMI_TX_D\<close> of
  the top-level module is bound to the concatenation of the subsignals
  \<^verbatim>\<open>r\<close>, \<^verbatim>\<open>g\<close> and \<^verbatim>\<open>b\<close>, in this order, of
  the record that the platform hands out for the resource \<^verbatim>\<open>hdmi\<close>. Its
  width is the sum of the three widths, \<^verbatim>\<open>r\<close> holds the least significant
  bits, and each channel is read back whole from its own range of bits.
\<close>

theorem hdmi_tx_d_is_cat_r_g_b:
  assumes "Top p = (Inr d, p')"
  shows "\<exists>i fs wr wg wb.
     provides p ''hdmi'' None (Record ''hdmi'' i fs) \<and>
     map_of fs ''r'' = Some wr \<and> map_of fs ''g'' = Some wg \<and> map_of fs ''b'' = Some wb \<and>
     port d ''sys_top'' ''HDMI_TX_D'' = [Output ''HDMI_TX_D''
       (Cat [V (Pad ''hdmi'' i ''r'' wr), V (Pad ''hdmi'' i ''g'' wg), V (Pad ''hdmi'' i ''b'' wb)])] \<and>
     len (Cat [V (Pad ''hdmi'' i ''r'' wr), V (Pad ''hdmi'' i ''g'' wg), V (Pad ''hdmi'' i ''b'' wb)])
       = wr + wg + wb \<and>
     (\<forall>\<sigma>. val \<sigma> (Cat [V (Pad ''hdmi'' i ''r'' wr), V (Pad ''hdmi'' i ''g'' wg),
                        V (Pad ''hdmi'' i ''b'' wb)])
            = val \<sigma> (V (Pad ''hdmi'' i ''r'' wr))
              + 2 ^ wr * val \<sigma> (V (Pad ''hdmi'' i ''g'' wg))
              + 2 ^ (wr + wg) * val \<sigma> (V (Pad ''hdmi'' i ''b'' wb))) \<and>
     (\<forall>\<sigma>. val \<sigma> (Slice (Cat [V (Pad ''hdmi'' i ''r'' wr), V (Pad ''hdmi'' i ''g'' wg),
                               V (Pad ''hdmi'' i ''b'' wb)]) 0 wr)
            = val \<sigma> (V (Pad ''hdmi'' i ''r'' wr))
          \<and> val \<sigma> (Slice (Cat [V (Pad ''hdmi'' i ''r'' wr), V (Pad ''hdmi'' i ''g'' wg),
                               V (Pad ''hdmi'' i ''b'' wb)]) wr (wr + wg))
            = val \<sigma> (V (Pad ''hdmi'' i ''g'' wg))
          \<and> val \<sigma> (Slice (Cat [V (Pad ''hdmi'' i ''r'' wr), V (Pad ''hdmi'' i ''g'' wg),
                               V (Pad ''hdmi'' i ''b'' wb)]) (wr + wg) (wr + wg + wb))
            = val \<sigma> (V (Pad ''hdmi'' i ''b'' wb)))"
proof -
  from Top_hdmi [OF assms] obtain i fs wr wg wb where
    h: "provides p ''hdmi'' None (Record ''hdmi'' i fs)"
      "map_of fs ''r'' = Some wr" "map_of fs ''g'' = Some wg" "map_of fs ''b'' = Some wb"
      "port d ''sys_top'' ''HDMI_TX_D'' = [Output ''HDMI_TX_D''
        (Cat [V (Pad ''hdmi'' i ''r'' wr), V (Pad ''hdmi'' i ''g'' wg), V (Pad ''hdmi'' i ''b'' wb)])]"
    by blast
  let ?r = "V (Pad ''hdmi'' i ''r'' wr)" and ?g = "V (Pad ''hdmi'' i ''g'' wg)"
    and ?b = "V (Pad ''hdmi'' i ''b'' wb)"
  have l: "len (Cat [?r, ?g, ?b]) = wr + wg + wb" by simp
  have v: "val \<sigma> (Cat [?r, ?g, ?b])
      = val \<sigma> ?r + 2 ^ wr * (val \<sigma> ?g + 2 ^ wg * val \<sigma> ?b)" for \<sigma>
    by simp
  have v': "val \<sigma> (Cat [?r, ?g, ?b])
      = val \<sigma> ?r + 2 ^ wr * val \<sigma> ?g + 2 ^ (wr + wg) * val \<sigma> ?b" for \<sigma>
    unfolding v by (simp add: power_add algebra_simps)
  have br: "val \<sigma> ?r < 2 ^ wr" and bg: "val \<sigma> ?g < 2 ^ wg" and bb: "val \<sigma> ?b < 2 ^ wb" for \<sigma>
    using val_bound [of \<sigma> ?r] val_bound [of \<sigma> ?g] val_bound [of \<sigma> ?b] by simp_all
  have s: "val \<sigma> (Slice (Cat [?r, ?g, ?b]) 0 wr) = val \<sigma> ?r
      \<and> val \<sigma> (Slice (Cat [?r, ?g, ?b]) wr (wr + wg)) = val \<sigma> ?g
      \<and> val \<sigma> (Slice (Cat [?r, ?g, ?b]) (wr + wg) (wr + wg + wb)) = val \<sigma> ?b" for \<sigma>
    using cat3 [OF br [of \<sigma>] bg [of \<sigma>] bb [of \<sigma>]]
    unfolding val.simps(6) v by simp
  from h l v' s show ?thesis by blast
qed

theorem hdmi_tx_d_is_cat_r_g_b_witness:
  "fst (Top example_platform) = Inr example_top
   \<and> port example_top ''sys_top'' ''HDMI_TX_D'' = [Output ''HDMI_TX_D''
        (Cat [V (Pad ''hdmi'' 0 ''r'' 8), V (Pad ''hdmi'' 0 ''g'' 8), V (Pad ''hdmi'' 0 ''b'' 8)])]
   \<and> len (Cat [V (Pad ''hdmi'' 0 ''r'' 8), V (Pad ''hdmi'' 0 ''g'' 8), V (Pad ''hdmi'' 0 ''b'' 8)])
        = 24
   \<and> val example_valuation
        (Cat [V (Pad ''hdmi'' 0 ''r'' 8), V (Pad ''hdmi'' 0 ''g'' 8), V (Pad ''hdmi'' 0 ''b'' 8)])
        = 0x563412
   \<and> val example_valuation (Slice
        (Cat [V (Pad ''hdmi'' 0 ''r'' 8), V (Pad ''hdmi'' 0 ''g'' 8), V (Pad ''hdmi'' 0 ''b'' 8)])
        8 16) = 0x34"
proof -
  have P: "port example_top ''sys_top'' ''HDMI_TX_D'' = [Output ''HDMI_TX_D''
        (Cat [V (Pad ''hdmi'' 0 ''r'' 8), V (Pad ''hdmi'' 0 ''g'' 8), V (Pad ''hdmi'' 0 ''b'' 8)])]"
    by (simp add: port_def bindings_def example_top_def sys_top_items_def pin_def example_hdmi_def)
  show ?thesis
    using hdmi_tx_d_is_cat_r_g_b [OF Top_example_run] P Top_example by simp
qed

section \<open>The debug branch\<close>

text \<open>
  Claim C10. \<^verbatim>\<open>self.debug\<close> is assigned \<^verbatim>\<open>False\<close> before it
  is read, so the branch that adds the SPI bus master and the logic analyzer is never
  taken: every design that is built has the flag false, no submodule and no additional
  bus master.
\<close>

theorem debug_branch_not_taken:
  assumes "Top p = (Inr d, p')"
  shows "debug d = Some False \<and> submodules d = [] \<and> wb_masters d = []"
  using Top_flags [OF assms] by simp

theorem debug_branch_not_taken_witness:
  "fst (Top example_platform) = Inr example_top
   \<and> debug example_top = Some False \<and> submodules example_top = []
   \<and> wb_masters example_top = []"
  using debug_branch_not_taken [OF Top_example_run] Top_example by simp

end
